theory Spec2Isabelle
  imports Complex_Main "HOL-Library.AList" "HOL-Library.Tree"
begin

section \<open>JavaScript strings\<close>

text \<open>
  A JavaScript string is a sequence of UTF-16 code units; a code unit is modelled by its
  numeric value. The station names of the feeds carry en-dashes and curly quotes, which
  lie outside the 8-bit characters of \<^typ>\<open>string\<close>, hence the numeric model.
  \<open>js\<close> turns an ASCII literal into such a string.
\<close>

type_synonym jsstring = "nat list"

definition js :: "string \<Rightarrow> jsstring" where
  "js s = map of_char s"

definition SPACE :: nat where "SPACE = 0x20"
definition APOSTROPHE :: nat where "APOSTROPHE = 0x27"
definition LPAREN :: nat where "LPAREN = 0x28"
definition RPAREN :: nat where "RPAREN = 0x29"
definition HYPHEN :: nat where "HYPHEN = 0x2D"
definition SLASH :: nat where "SLASH = 0x2F"
definition BACKSLASH :: nat where "BACKSLASH = 0x5C"
definition EN_DASH :: nat where "EN_DASH = 0x2013"
definition EM_DASH :: nat where "EM_DASH = 0x2014"
definition LEFT_SINGLE_QUOTE :: nat where "LEFT_SINGLE_QUOTE = 0x2018"
definition RIGHT_SINGLE_QUOTE :: nat where "RIGHT_SINGLE_QUOTE = 0x2019"

subsection \<open>Code points\<close>

text \<open>
  The case conversion reads a string as code points: a high surrogate followed by a low
  surrogate is one code point of a supplementary plane, every other code unit is a code
  point by itself (a surrogate without its partner included).
\<close>

definition isHighSurrogate :: "nat \<Rightarrow> bool" where
  "isHighSurrogate u \<longleftrightarrow> 0xD800 \<le> u \<and> u \<le> 0xDBFF"

definition isLowSurrogate :: "nat \<Rightarrow> bool" where
  "isLowSurrogate u \<longleftrightarrow> 0xDC00 \<le> u \<and> u \<le> 0xDFFF"

definition pairValue :: "nat \<Rightarrow> nat \<Rightarrow> nat" where
  "pairValue hi lo = 0x10000 + (hi - 0xD800) * 0x400 + (lo - 0xDC00)"

fun codePoints :: "jsstring \<Rightarrow> nat list" where
  "codePoints [] = []"
| "codePoints [u] = [u]"
| "codePoints (u # v # rest) =
     (if isHighSurrogate u \<and> isLowSurrogate v then pairValue u v # codePoints rest
      else u # codePoints (v # rest))"

definition encodePoint :: "nat \<Rightarrow> jsstring" where
  "encodePoint c =
     (if c < 0x10000 then [c]
      else [0xD800 + (c - 0x10000) div 0x400, 0xDC00 + (c - 0x10000) mod 0x400])"

definition fromCodePoints :: "nat list \<Rightarrow> jsstring" where
  "fromCodePoints cs = concat (map encodePoint cs)"

subsection \<open>Lower case\<close>

text \<open>
  The simple lowercase mappings of the Unicode Character Database (version 14.0), as
  rules \<open>(start, stop, step, target)\<close>: the code points \<open>start\<close>, \<open>start + step\<close>, ... up to
  \<open>stop\<close> map to \<open>target\<close>, \<open>target + step\<close>, ... in this order. A code point under no rule
  has no lowercase mapping.
\<close>

type_synonym caseRule = "nat \<times> nat \<times> nat \<times> nat"

definition LOWERCASE_RULES :: "caseRule list" where
  "LOWERCASE_RULES =
    [(0x0041, 0x005A, 1, 0x0061), (0x00C0, 0x00D6, 1, 0x00E0), (0x00D8, 0x00DE, 1, 0x00F8),
     (0x0100, 0x012E, 2, 0x0101), (0x0132, 0x0136, 2, 0x0133), (0x0139, 0x0147, 2, 0x013A),
     (0x014A, 0x0176, 2, 0x014B), (0x0178, 0x0178, 2, 0x00FF), (0x0179, 0x017D, 2, 0x017A),
     (0x0181, 0x0181, 2, 0x0253), (0x0182, 0x0184, 2, 0x0183), (0x0186, 0x0186, 2, 0x0254),
     (0x0187, 0x0187, 2, 0x0188), (0x0189, 0x018A, 1, 0x0256), (0x018B, 0x018B, 2, 0x018C),
     (0x018E, 0x018E, 2, 0x01DD), (0x018F, 0x018F, 2, 0x0259), (0x0190, 0x0190, 2, 0x025B),
     (0x0191, 0x0191, 2, 0x0192), (0x0193, 0x0193, 2, 0x0260), (0x0194, 0x0194, 2, 0x0263),
     (0x0196, 0x0196, 2, 0x0269), (0x0197, 0x0197, 2, 0x0268), (0x0198, 0x0198, 2, 0x0199),
     (0x019C, 0x019C, 2, 0x026F), (0x019D, 0x019D, 2, 0x0272), (0x019F, 0x019F, 2, 0x0275),
     (0x01A0, 0x01A4, 2, 0x01A1), (0x01A6, 0x01A6, 2, 0x0280), (0x01A7, 0x01A7, 2, 0x01A8),
     (0x01A9, 0x01A9, 2, 0x0283), (0x01AC, 0x01AC, 2, 0x01AD), (0x01AE, 0x01AE, 2, 0x0288),
     (0x01AF, 0x01AF, 2, 0x01B0), (0x01B1, 0x01B2, 1, 0x028A), (0x01B3, 0x01B5, 2, 0x01B4),
     (0x01B7, 0x01B7, 2, 0x0292), (0x01B8, 0x01B8, 2, 0x01B9), (0x01BC, 0x01BC, 2, 0x01BD),
     (0x01C4, 0x01C4, 2, 0x01C6), (0x01C5, 0x01C5, 2, 0x01C6), (0x01C7, 0x01C7, 2, 0x01C9),
     (0x01C8, 0x01C8, 2, 0x01C9), (0x01CA, 0x01CA, 2, 0x01CC), (0x01CB, 0x01DB, 2, 0x01CC),
     (0x01DE, 0x01EE, 2, 0x01DF), (0x01F1, 0x01F1, 2, 0x01F3), (0x01F2, 0x01F4, 2, 0x01F3),
     (0x01F6, 0x01F6, 2, 0x0195), (0x01F7, 0x01F7, 2, 0x01BF), (0x01F8, 0x021E, 2, 0x01F9),
     (0x0220, 0x0220, 2, 0x019E), (0x0222, 0x0232, 2, 0x0223), (0x023A, 0x023A, 2, 0x2C65),
     (0x023B, 0x023B, 2, 0x023C), (0x023D, 0x023D, 2, 0x019A), (0x023E, 0x023E, 2, 0x2C66),
     (0x0241, 0x0241, 2, 0x0242), (0x0243, 0x0243, 2, 0x0180), (0x0244, 0x0244, 2, 0x0289),
     (0x0245, 0x0245, 2, 0x028C), (0x0246, 0x024E, 2, 0x0247), (0x0370, 0x0372, 2, 0x0371),
     (0x0376, 0x0376, 2, 0x0377), (0x037F, 0x037F, 2, 0x03F3), (0x0386, 0x0386, 2, 0x03AC),
     (0x0388, 0x038A, 1, 0x03AD), (0x038C, 0x038C, 2, 0x03CC), (0x038E, 0x038F, 1, 0x03CD),
     (0x0391, 0x03A1, 1, 0x03B1), (0x03A3, 0x03AB, 1, 0x03C3), (0x03CF, 0x03CF, 2, 0x03D7),
     (0x03D8, 0x03EE, 2, 0x03D9), (0x03F4, 0x03F4, 2, 0x03B8), (0x03F7, 0x03F7, 2, 0x03F8),
     (0x03F9, 0x03F9, 2, 0x03F2), (0x03FA, 0x03FA, 2, 0x03FB), (0x03FD, 0x03FF, 1, 0x037B),
     (0x0400, 0x040F, 1, 0x0450), (0x0410, 0x042F, 1, 0x0430), (0x0460, 0x0480, 2, 0x0461),
     (0x048A, 0x04BE, 2, 0x048B), (0x04C0, 0x04C0, 2, 0x04CF), (0x04C1, 0x04CD, 2, 0x04C2),
     (0x04D0, 0x052E, 2, 0x04D1), (0x0531, 0x0556, 1, 0x0561), (0x10A0, 0x10C5, 1, 0x2D00),
     (0x10C7, 0x10C7, 2, 0x2D27), (0x10CD, 0x10CD, 2, 0x2D2D), (0x13A0, 0x13EF, 1, 0xAB70),
     (0x13F0, 0x13F5, 1, 0x13F8), (0x1C90, 0x1CBA, 1, 0x10D0), (0x1CBD, 0x1CBF, 1, 0x10FD),
     (0x1E00, 0x1E94, 2, 0x1E01), (0x1E9E, 0x1E9E, 2, 0x00DF), (0x1EA0, 0x1EFE, 2, 0x1EA1),
     (0x1F08, 0x1F0F, 1, 0x1F00), (0x1F18, 0x1F1D, 1, 0x1F10), (0x1F28, 0x1F2F, 1, 0x1F20),
     (0x1F38, 0x1F3F, 1, 0x1F30), (0x1F48, 0x1F4D, 1, 0x1F40), (0x1F59, 0x1F5F, 2, 0x1F51),
     (0x1F68, 0x1F6F, 1, 0x1F60), (0x1F88, 0x1F8F, 1, 0x1F80), (0x1F98, 0x1F9F, 1, 0x1F90),
     (0x1FA8, 0x1FAF, 1, 0x1FA0), (0x1FB8, 0x1FB9, 1, 0x1FB0), (0x1FBA, 0x1FBB, 1, 0x1F70),
     (0x1FBC, 0x1FBC, 2, 0x1FB3), (0x1FC8, 0x1FCB, 1, 0x1F72), (0x1FCC, 0x1FCC, 2, 0x1FC3),
     (0x1FD8, 0x1FD9, 1, 0x1FD0), (0x1FDA, 0x1FDB, 1, 0x1F76), (0x1FE8, 0x1FE9, 1, 0x1FE0),
     (0x1FEA, 0x1FEB, 1, 0x1F7A), (0x1FEC, 0x1FEC, 2, 0x1FE5), (0x1FF8, 0x1FF9, 1, 0x1F78),
     (0x1FFA, 0x1FFB, 1, 0x1F7C), (0x1FFC, 0x1FFC, 2, 0x1FF3), (0x2126, 0x2126, 2, 0x03C9),
     (0x212A, 0x212A, 2, 0x006B), (0x212B, 0x212B, 2, 0x00E5), (0x2132, 0x2132, 2, 0x214E),
     (0x2160, 0x216F, 1, 0x2170), (0x2183, 0x2183, 2, 0x2184), (0x24B6, 0x24CF, 1, 0x24D0),
     (0x2C00, 0x2C2F, 1, 0x2C30), (0x2C60, 0x2C60, 2, 0x2C61), (0x2C62, 0x2C62, 2, 0x026B),
     (0x2C63, 0x2C63, 2, 0x1D7D), (0x2C64, 0x2C64, 2, 0x027D), (0x2C67, 0x2C6B, 2, 0x2C68),
     (0x2C6D, 0x2C6D, 2, 0x0251), (0x2C6E, 0x2C6E, 2, 0x0271), (0x2C6F, 0x2C6F, 2, 0x0250),
     (0x2C70, 0x2C70, 2, 0x0252), (0x2C72, 0x2C72, 2, 0x2C73), (0x2C75, 0x2C75, 2, 0x2C76),
     (0x2C7E, 0x2C7F, 1, 0x023F), (0x2C80, 0x2CE2, 2, 0x2C81), (0x2CEB, 0x2CED, 2, 0x2CEC),
     (0x2CF2, 0x2CF2, 2, 0x2CF3), (0xA640, 0xA66C, 2, 0xA641), (0xA680, 0xA69A, 2, 0xA681),
     (0xA722, 0xA72E, 2, 0xA723), (0xA732, 0xA76E, 2, 0xA733), (0xA779, 0xA77B, 2, 0xA77A),
     (0xA77D, 0xA77D, 2, 0x1D79), (0xA77E, 0xA786, 2, 0xA77F), (0xA78B, 0xA78B, 2, 0xA78C),
     (0xA78D, 0xA78D, 2, 0x0265), (0xA790, 0xA792, 2, 0xA791), (0xA796, 0xA7A8, 2, 0xA797),
     (0xA7AA, 0xA7AA, 2, 0x0266), (0xA7AB, 0xA7AB, 2, 0x025C), (0xA7AC, 0xA7AC, 2, 0x0261),
     (0xA7AD, 0xA7AD, 2, 0x026C), (0xA7AE, 0xA7AE, 2, 0x026A), (0xA7B0, 0xA7B0, 2, 0x029E),
     (0xA7B1, 0xA7B1, 2, 0x0287), (0xA7B2, 0xA7B2, 2, 0x029D), (0xA7B3, 0xA7B3, 2, 0xAB53),
     (0xA7B4, 0xA7C2, 2, 0xA7B5), (0xA7C4, 0xA7C4, 2, 0xA794), (0xA7C5, 0xA7C5, 2, 0x0282),
     (0xA7C6, 0xA7C6, 2, 0x1D8E), (0xA7C7, 0xA7C9, 2, 0xA7C8), (0xA7D0, 0xA7D0, 2, 0xA7D1),
     (0xA7D6, 0xA7D8, 2, 0xA7D7), (0xA7F5, 0xA7F5, 2, 0xA7F6), (0xFF21, 0xFF3A, 1, 0xFF41),
     (0x10400, 0x10427, 1, 0x10428), (0x104B0, 0x104D3, 1, 0x104D8), (0x10570, 0x1057A, 1, 0x10597),
     (0x1057C, 0x1058A, 1, 0x105A3), (0x1058C, 0x10592, 1, 0x105B3), (0x10594, 0x10595, 1, 0x105BB),
     (0x10C80, 0x10CB2, 1, 0x10CC0), (0x118A0, 0x118BF, 1, 0x118C0), (0x16E40, 0x16E5F, 1, 0x16E60),
     (0x1E900, 0x1E921, 1, 0x1E922)]"

definition ruleApplies :: "caseRule \<Rightarrow> nat \<Rightarrow> bool" where
  "ruleApplies r c = (case r of (start, stop, step, target) \<Rightarrow>
     start \<le> c \<and> c \<le> stop \<and> (c - start) mod step = 0)"

definition ruleOutput :: "caseRule \<Rightarrow> nat \<Rightarrow> nat" where
  "ruleOutput r c = (case r of (start, stop, step, target) \<Rightarrow> target + (c - start))"

definition simpleLower :: "nat \<Rightarrow> nat" where
  "simpleLower c =
     (case find (\<lambda>r. ruleApplies r c) LOWERCASE_RULES of
        None \<Rightarrow> c
      | Some r \<Rightarrow> ruleOutput r c)"

text \<open>
  The properties \<open>Case_Ignorable\<close> and \<open>Cased\<close> of the same database, as ranges
  \<open>(start, stop)\<close>.
\<close>

definition CASE_IGNORABLE :: "(nat \<times> nat) list" where
  "CASE_IGNORABLE =
    [(0x0027, 0x0027), (0x002E, 0x002E), (0x003A, 0x003A), (0x005E, 0x005E), (0x0060, 0x0060),
     (0x00A8, 0x00A8), (0x00AD, 0x00AD), (0x00AF, 0x00AF), (0x00B4, 0x00B4), (0x00B7, 0x00B8),
     (0x02B0, 0x036F), (0x0374, 0x0375), (0x037A, 0x037A), (0x0384, 0x0385), (0x0387, 0x0387),
     (0x0483, 0x0489), (0x0559, 0x0559), (0x055F, 0x055F), (0x0591, 0x05BD), (0x05BF, 0x05BF),
     (0x05C1, 0x05C2), (0x05C4, 0x05C5), (0x05C7, 0x05C7), (0x05F4, 0x05F4), (0x0600, 0x0605),
     (0x0610, 0x061A), (0x061C, 0x061C), (0x0640, 0x0640), (0x064B, 0x065F), (0x0670, 0x0670),
     (0x06D6, 0x06DD), (0x06DF, 0x06E8), (0x06EA, 0x06ED), (0x070F, 0x070F), (0x0711, 0x0711),
     (0x0730, 0x074A), (0x07A6, 0x07B0), (0x07EB, 0x07F5), (0x07FA, 0x07FA), (0x07FD, 0x07FD),
     (0x0816, 0x082D), (0x0859, 0x085B), (0x0888, 0x0888), (0x0890, 0x0891), (0x0898, 0x089F),
     (0x08C9, 0x0902), (0x093A, 0x093A), (0x093C, 0x093C), (0x0941, 0x0948), (0x094D, 0x094D),
     (0x0951, 0x0957), (0x0962, 0x0963), (0x0971, 0x0971), (0x0981, 0x0981), (0x09BC, 0x09BC),
     (0x09C1, 0x09C4), (0x09CD, 0x09CD), (0x09E2, 0x09E3), (0x09FE, 0x09FE), (0x0A01, 0x0A02),
     (0x0A3C, 0x0A3C), (0x0A41, 0x0A42), (0x0A47, 0x0A48), (0x0A4B, 0x0A4D), (0x0A51, 0x0A51),
     (0x0A70, 0x0A71), (0x0A75, 0x0A75), (0x0A81, 0x0A82), (0x0ABC, 0x0ABC), (0x0AC1, 0x0AC5),
     (0x0AC7, 0x0AC8), (0x0ACD, 0x0ACD), (0x0AE2, 0x0AE3), (0x0AFA, 0x0AFF), (0x0B01, 0x0B01),
     (0x0B3C, 0x0B3C), (0x0B3F, 0x0B3F), (0x0B41, 0x0B44), (0x0B4D, 0x0B4D), (0x0B55, 0x0B56),
     (0x0B62, 0x0B63), (0x0B82, 0x0B82), (0x0BC0, 0x0BC0), (0x0BCD, 0x0BCD), (0x0C00, 0x0C00),
     (0x0C04, 0x0C04), (0x0C3C, 0x0C3C), (0x0C3E, 0x0C40), (0x0C46, 0x0C48), (0x0C4A, 0x0C4D),
     (0x0C55, 0x0C56), (0x0C62, 0x0C63), (0x0C81, 0x0C81), (0x0CBC, 0x0CBC), (0x0CBF, 0x0CBF),
     (0x0CC6, 0x0CC6), (0x0CCC, 0x0CCD), (0x0CE2, 0x0CE3), (0x0D00, 0x0D01), (0x0D3B, 0x0D3C),
     (0x0D41, 0x0D44), (0x0D4D, 0x0D4D), (0x0D62, 0x0D63), (0x0D81, 0x0D81), (0x0DCA, 0x0DCA),
     (0x0DD2, 0x0DD4), (0x0DD6, 0x0DD6), (0x0E31, 0x0E31), (0x0E34, 0x0E3A), (0x0E46, 0x0E4E),
     (0x0EB1, 0x0EB1), (0x0EB4, 0x0EBC), (0x0EC6, 0x0EC6), (0x0EC8, 0x0ECD), (0x0F18, 0x0F19),
     (0x0F35, 0x0F35), (0x0F37, 0x0F37), (0x0F39, 0x0F39), (0x0F71, 0x0F7E), (0x0F80, 0x0F84),
     (0x0F86, 0x0F87), (0x0F8D, 0x0F97), (0x0F99, 0x0FBC), (0x0FC6, 0x0FC6), (0x102D, 0x1030),
     (0x1032, 0x1037), (0x1039, 0x103A), (0x103D, 0x103E), (0x1058, 0x1059), (0x105E, 0x1060),
     (0x1071, 0x1074), (0x1082, 0x1082), (0x1085, 0x1086), (0x108D, 0x108D), (0x109D, 0x109D),
     (0x10FC, 0x10FC), (0x135D, 0x135F), (0x1712, 0x1714), (0x1732, 0x1733), (0x1752, 0x1753),
     (0x1772, 0x1773), (0x17B4, 0x17B5), (0x17B7, 0x17BD), (0x17C6, 0x17C6), (0x17C9, 0x17D3),
     (0x17D7, 0x17D7), (0x17DD, 0x17DD), (0x180B, 0x180F), (0x1843, 0x1843), (0x1885, 0x1886),
     (0x18A9, 0x18A9), (0x1920, 0x1922), (0x1927, 0x1928), (0x1932, 0x1932), (0x1939, 0x193B),
     (0x1A17, 0x1A18), (0x1A1B, 0x1A1B), (0x1A56, 0x1A56), (0x1A58, 0x1A5E), (0x1A60, 0x1A60),
     (0x1A62, 0x1A62), (0x1A65, 0x1A6C), (0x1A73, 0x1A7C), (0x1A7F, 0x1A7F), (0x1AA7, 0x1AA7),
     (0x1AB0, 0x1ACE), (0x1B00, 0x1B03), (0x1B34, 0x1B34), (0x1B36, 0x1B3A), (0x1B3C, 0x1B3C),
     (0x1B42, 0x1B42), (0x1B6B, 0x1B73), (0x1B80, 0x1B81), (0x1BA2, 0x1BA5), (0x1BA8, 0x1BA9),
     (0x1BAB, 0x1BAD), (0x1BE6, 0x1BE6), (0x1BE8, 0x1BE9), (0x1BED, 0x1BED), (0x1BEF, 0x1BF1),
     (0x1C2C, 0x1C33), (0x1C36, 0x1C37), (0x1C78, 0x1C7D), (0x1CD0, 0x1CD2), (0x1CD4, 0x1CE0),
     (0x1CE2, 0x1CE8), (0x1CED, 0x1CED), (0x1CF4, 0x1CF4), (0x1CF8, 0x1CF9), (0x1D2C, 0x1D6A),
     (0x1D78, 0x1D78), (0x1D9B, 0x1DFF), (0x1FBD, 0x1FBD), (0x1FBF, 0x1FC1), (0x1FCD, 0x1FCF),
     (0x1FDD, 0x1FDF), (0x1FED, 0x1FEF), (0x1FFD, 0x1FFE), (0x200B, 0x200F), (0x2018, 0x2019),
     (0x2024, 0x2024), (0x2027, 0x2027), (0x202A, 0x202E), (0x2060, 0x2064), (0x2066, 0x206F),
     (0x2071, 0x2071), (0x207F, 0x207F), (0x2090, 0x209C), (0x20D0, 0x20F0), (0x2C7C, 0x2C7D),
     (0x2CEF, 0x2CF1), (0x2D6F, 0x2D6F), (0x2D7F, 0x2D7F), (0x2DE0, 0x2DFF), (0x2E2F, 0x2E2F),
     (0x3005, 0x3005), (0x302A, 0x302D), (0x3031, 0x3035), (0x303B, 0x303B), (0x3099, 0x309E),
     (0x30FC, 0x30FE), (0xA015, 0xA015), (0xA4F8, 0xA4FD), (0xA60C, 0xA60C), (0xA66F, 0xA672),
     (0xA674, 0xA67D), (0xA67F, 0xA67F), (0xA69C, 0xA69F), (0xA6F0, 0xA6F1), (0xA700, 0xA721),
     (0xA770, 0xA770), (0xA788, 0xA78A), (0xA7F2, 0xA7F4), (0xA7F8, 0xA7F9), (0xA802, 0xA802),
     (0xA806, 0xA806), (0xA80B, 0xA80B), (0xA825, 0xA826), (0xA82C, 0xA82C), (0xA8C4, 0xA8C5),
     (0xA8E0, 0xA8F1), (0xA8FF, 0xA8FF), (0xA926, 0xA92D), (0xA947, 0xA951), (0xA980, 0xA982),
     (0xA9B3, 0xA9B3), (0xA9B6, 0xA9B9), (0xA9BC, 0xA9BD), (0xA9CF, 0xA9CF), (0xA9E5, 0xA9E6),
     (0xAA29, 0xAA2E), (0xAA31, 0xAA32), (0xAA35, 0xAA36), (0xAA43, 0xAA43), (0xAA4C, 0xAA4C),
     (0xAA70, 0xAA70), (0xAA7C, 0xAA7C), (0xAAB0, 0xAAB0), (0xAAB2, 0xAAB4), (0xAAB7, 0xAAB8),
     (0xAABE, 0xAABF), (0xAAC1, 0xAAC1), (0xAADD, 0xAADD), (0xAAEC, 0xAAED), (0xAAF3, 0xAAF4),
     (0xAAF6, 0xAAF6), (0xAB5B, 0xAB5F), (0xAB69, 0xAB6B), (0xABE5, 0xABE5), (0xABE8, 0xABE8),
     (0xABED, 0xABED), (0xFB1E, 0xFB1E), (0xFBB2, 0xFBC2), (0xFE00, 0xFE0F), (0xFE13, 0xFE13),
     (0xFE20, 0xFE2F), (0xFE52, 0xFE52), (0xFE55, 0xFE55), (0xFEFF, 0xFEFF), (0xFF07, 0xFF07),
     (0xFF0E, 0xFF0E), (0xFF1A, 0xFF1A), (0xFF3E, 0xFF3E), (0xFF40, 0xFF40), (0xFF70, 0xFF70),
     (0xFF9E, 0xFF9F), (0xFFE3, 0xFFE3), (0xFFF9, 0xFFFB), (0x101FD, 0x101FD), (0x102E0, 0x102E0),
     (0x10376, 0x1037A), (0x10780, 0x10785), (0x10787, 0x107B0), (0x107B2, 0x107BA), (0x10A01, 0x10A03),
     (0x10A05, 0x10A06), (0x10A0C, 0x10A0F), (0x10A38, 0x10A3A), (0x10A3F, 0x10A3F), (0x10AE5, 0x10AE6),
     (0x10D24, 0x10D27), (0x10EAB, 0x10EAC), (0x10F46, 0x10F50), (0x10F82, 0x10F85), (0x11001, 0x11001),
     (0x11038, 0x11046), (0x11070, 0x11070), (0x11073, 0x11074), (0x1107F, 0x11081), (0x110B3, 0x110B6),
     (0x110B9, 0x110BA), (0x110BD, 0x110BD), (0x110C2, 0x110C2), (0x110CD, 0x110CD), (0x11100, 0x11102),
     (0x11127, 0x1112B), (0x1112D, 0x11134), (0x11173, 0x11173), (0x11180, 0x11181), (0x111B6, 0x111BE),
     (0x111C9, 0x111CC), (0x111CF, 0x111CF), (0x1122F, 0x11231), (0x11234, 0x11234), (0x11236, 0x11237),
     (0x1123E, 0x1123E), (0x112DF, 0x112DF), (0x112E3, 0x112EA), (0x11300, 0x11301), (0x1133B, 0x1133C),
     (0x11340, 0x11340), (0x11366, 0x1136C), (0x11370, 0x11374), (0x11438, 0x1143F), (0x11442, 0x11444),
     (0x11446, 0x11446), (0x1145E, 0x1145E), (0x114B3, 0x114B8), (0x114BA, 0x114BA), (0x114BF, 0x114C0),
     (0x114C2, 0x114C3), (0x115B2, 0x115B5), (0x115BC, 0x115BD), (0x115BF, 0x115C0), (0x115DC, 0x115DD),
     (0x11633, 0x1163A), (0x1163D, 0x1163D), (0x1163F, 0x11640), (0x116AB, 0x116AB), (0x116AD, 0x116AD),
     (0x116B0, 0x116B5), (0x116B7, 0x116B7), (0x1171D, 0x1171F), (0x11722, 0x11725), (0x11727, 0x1172B),
     (0x1182F, 0x11837), (0x11839, 0x1183A), (0x1193B, 0x1193C), (0x1193E, 0x1193E), (0x11943, 0x11943),
     (0x119D4, 0x119D7), (0x119DA, 0x119DB), (0x119E0, 0x119E0), (0x11A01, 0x11A0A), (0x11A33, 0x11A38),
     (0x11A3B, 0x11A3E), (0x11A47, 0x11A47), (0x11A51, 0x11A56), (0x11A59, 0x11A5B), (0x11A8A, 0x11A96),
     (0x11A98, 0x11A99), (0x11C30, 0x11C36), (0x11C38, 0x11C3D), (0x11C3F, 0x11C3F), (0x11C92, 0x11CA7),
     (0x11CAA, 0x11CB0), (0x11CB2, 0x11CB3), (0x11CB5, 0x11CB6), (0x11D31, 0x11D36), (0x11D3A, 0x11D3A),
     (0x11D3C, 0x11D3D), (0x11D3F, 0x11D45), (0x11D47, 0x11D47), (0x11D90, 0x11D91), (0x11D95, 0x11D95),
     (0x11D97, 0x11D97), (0x11EF3, 0x11EF4), (0x13430, 0x13438), (0x16AF0, 0x16AF4), (0x16B30, 0x16B36),
     (0x16B40, 0x16B43), (0x16F4F, 0x16F4F), (0x16F8F, 0x16F9F), (0x16FE0, 0x16FE1), (0x16FE3, 0x16FE4),
     (0x1AFF0, 0x1AFF3), (0x1AFF5, 0x1AFFB), (0x1AFFD, 0x1AFFE), (0x1BC9D, 0x1BC9E), (0x1BCA0, 0x1BCA3),
     (0x1CF00, 0x1CF2D), (0x1CF30, 0x1CF46), (0x1D167, 0x1D169), (0x1D173, 0x1D182), (0x1D185, 0x1D18B),
     (0x1D1AA, 0x1D1AD), (0x1D242, 0x1D244), (0x1DA00, 0x1DA36), (0x1DA3B, 0x1DA6C), (0x1DA75, 0x1DA75),
     (0x1DA84, 0x1DA84), (0x1DA9B, 0x1DA9F), (0x1DAA1, 0x1DAAF), (0x1E000, 0x1E006), (0x1E008, 0x1E018),
     (0x1E01B, 0x1E021), (0x1E023, 0x1E024), (0x1E026, 0x1E02A), (0x1E130, 0x1E13D), (0x1E2AE, 0x1E2AE),
     (0x1E2EC, 0x1E2EF), (0x1E8D0, 0x1E8D6), (0x1E944, 0x1E94B), (0x1F3FB, 0x1F3FF), (0xE0001, 0xE0001),
     (0xE0020, 0xE007F), (0xE0100, 0xE01EF)]"

definition CASED :: "(nat \<times> nat) list" where
  "CASED =
    [(0x0041, 0x005A), (0x0061, 0x007A), (0x00AA, 0x00AA), (0x00B5, 0x00B5), (0x00BA, 0x00BA),
     (0x00C0, 0x00D6), (0x00D8, 0x00F6), (0x00F8, 0x01BA), (0x01BC, 0x01BF), (0x01C4, 0x0293),
     (0x0295, 0x02B8), (0x02C0, 0x02C1), (0x02E0, 0x02E4), (0x0345, 0x0345), (0x0370, 0x0373),
     (0x0376, 0x0377), (0x037A, 0x037D), (0x037F, 0x037F), (0x0386, 0x0386), (0x0388, 0x038A),
     (0x038C, 0x038C), (0x038E, 0x03A1), (0x03A3, 0x03F5), (0x03F7, 0x0481), (0x048A, 0x052F),
     (0x0531, 0x0556), (0x0560, 0x0588), (0x10A0, 0x10C5), (0x10C7, 0x10C7), (0x10CD, 0x10CD),
     (0x10D0, 0x10FA), (0x10FD, 0x10FF), (0x13A0, 0x13F5), (0x13F8, 0x13FD), (0x1C80, 0x1C88),
     (0x1C90, 0x1CBA), (0x1CBD, 0x1CBF), (0x1D00, 0x1DBF), (0x1E00, 0x1F15), (0x1F18, 0x1F1D),
     (0x1F20, 0x1F45), (0x1F48, 0x1F4D), (0x1F50, 0x1F57), (0x1F59, 0x1F59), (0x1F5B, 0x1F5B),
     (0x1F5D, 0x1F5D), (0x1F5F, 0x1F7D), (0x1F80, 0x1FB4), (0x1FB6, 0x1FBC), (0x1FBE, 0x1FBE),
     (0x1FC2, 0x1FC4), (0x1FC6, 0x1FCC), (0x1FD0, 0x1FD3), (0x1FD6, 0x1FDB), (0x1FE0, 0x1FEC),
     (0x1FF2, 0x1FF4), (0x1FF6, 0x1FFC), (0x2071, 0x2071), (0x207F, 0x207F), (0x2090, 0x209C),
     (0x2102, 0x2102), (0x2107, 0x2107), (0x210A, 0x2113), (0x2115, 0x2115), (0x2119, 0x211D),
     (0x2124, 0x2124), (0x2126, 0x2126), (0x2128, 0x2128), (0x212A, 0x212D), (0x212F, 0x2134),
     (0x2139, 0x2139), (0x213C, 0x213F), (0x2145, 0x2149), (0x214E, 0x214E), (0x2160, 0x217F),
     (0x2183, 0x2184), (0x24B6, 0x24E9), (0x2C00, 0x2CE4), (0x2CEB, 0x2CEE), (0x2CF2, 0x2CF3),
     (0x2D00, 0x2D25), (0x2D27, 0x2D27), (0x2D2D, 0x2D2D), (0xA640, 0xA66D), (0xA680, 0xA69D),
     (0xA722, 0xA787), (0xA78B, 0xA78E), (0xA790, 0xA7CA), (0xA7D0, 0xA7D1), (0xA7D3, 0xA7D3),
     (0xA7D5, 0xA7D9), (0xA7F5, 0xA7F6), (0xA7F8, 0xA7FA), (0xAB30, 0xAB5A), (0xAB5C, 0xAB68),
     (0xAB70, 0xABBF), (0xFB00, 0xFB06), (0xFB13, 0xFB17), (0xFF21, 0xFF3A), (0xFF41, 0xFF5A),
     (0x10400, 0x1044F), (0x104B0, 0x104D3), (0x104D8, 0x104FB), (0x10570, 0x1057A), (0x1057C, 0x1058A),
     (0x1058C, 0x10592), (0x10594, 0x10595), (0x10597, 0x105A1), (0x105A3, 0x105B1), (0x105B3, 0x105B9),
     (0x105BB, 0x105BC), (0x10780, 0x10780), (0x10783, 0x10785), (0x10787, 0x107B0), (0x107B2, 0x107BA),
     (0x10C80, 0x10CB2), (0x10CC0, 0x10CF2), (0x118A0, 0x118DF), (0x16E40, 0x16E7F), (0x1D400, 0x1D454),
     (0x1D456, 0x1D49C), (0x1D49E, 0x1D49F), (0x1D4A2, 0x1D4A2), (0x1D4A5, 0x1D4A6), (0x1D4A9, 0x1D4AC),
     (0x1D4AE, 0x1D4B9), (0x1D4BB, 0x1D4BB), (0x1D4BD, 0x1D4C3), (0x1D4C5, 0x1D505), (0x1D507, 0x1D50A),
     (0x1D50D, 0x1D514), (0x1D516, 0x1D51C), (0x1D51E, 0x1D539), (0x1D53B, 0x1D53E), (0x1D540, 0x1D544),
     (0x1D546, 0x1D546), (0x1D54A, 0x1D550), (0x1D552, 0x1D6A5), (0x1D6A8, 0x1D6C0), (0x1D6C2, 0x1D6DA),
     (0x1D6DC, 0x1D6FA), (0x1D6FC, 0x1D714), (0x1D716, 0x1D734), (0x1D736, 0x1D74E), (0x1D750, 0x1D76E),
     (0x1D770, 0x1D788), (0x1D78A, 0x1D7A8), (0x1D7AA, 0x1D7C2), (0x1D7C4, 0x1D7CB), (0x1DF00, 0x1DF09),
     (0x1DF0B, 0x1DF1E), (0x1E900, 0x1E943), (0x1F130, 0x1F149), (0x1F150, 0x1F169), (0x1F170, 0x1F189)]"

definition inRanges :: "(nat \<times> nat) list \<Rightarrow> nat \<Rightarrow> bool" where
  "inRanges ranges c = list_ex (\<lambda>(start, stop). start \<le> c \<and> c \<le> stop) ranges"

text \<open>
  Whether, going away from a position, the first code point that is not case-ignorable
  is cased.
\<close>

fun casedAfterIgnorables :: "nat list \<Rightarrow> bool" where
  "casedAfterIgnorables [] = False"
| "casedAfterIgnorables (c # cs) =
     (if inRanges CASE_IGNORABLE c then casedAfterIgnorables cs else inRanges CASED c)"

text \<open>
  The condition \<open>Final_Sigma\<close>; \<open>before\<close> holds the code points before the sigma, the
  nearest first, \<open>after\<close> those after it.
\<close>

definition finalSigma :: "nat list \<Rightarrow> nat list \<Rightarrow> bool" where
  "finalSigma before after \<longleftrightarrow> casedAfterIgnorables before \<and> \<not> casedAfterIgnorables after"

text \<open>
  The lowercase conversion of a sequence of code points: the simple mapping of every code
  point, but for the two unconditional entries of the special casing: the capital sigma
  (\<open>U+03A3\<close>) becomes the final sigma \<open>U+03C2\<close> in the context \<open>Final_Sigma\<close> and \<open>U+03C3\<close>
  elsewhere, and \<open>U+0130\<close> becomes \<open>U+0069 U+0307\<close>.
\<close>

fun lowerFrom :: "nat list \<Rightarrow> nat list \<Rightarrow> nat list" where
  "lowerFrom before [] = []"
| "lowerFrom before (c # after) =
     (if c = 0x3A3 then [if finalSigma before after then 0x3C2 else 0x3C3]
      else if c = 0x130 then [0x69, 0x307]
      else [simpleLower c]) @ lowerFrom (c # before) after"

text \<open>\<open>String.prototype.toLowerCase\<close>.\<close>

definition toLowerCase :: "jsstring \<Rightarrow> jsstring" where
  "toLowerCase s = fromCodePoints (lowerFrom [] (codePoints s))"

subsection \<open>White space, replacement, search\<close>

text \<open>
  The class \<open>\s\<close> of a regular expression, which is also what \<open>trim\<close> removes:
  the white space and line terminator code units of ECMAScript.
\<close>

definition isWhiteSpace :: "nat \<Rightarrow> bool" where
  "isWhiteSpace c \<longleftrightarrow>
     c = 0x09 \<or> c = 0x0A \<or> c = 0x0B \<or> c = 0x0C \<or> c = 0x0D \<or> c = 0x20 \<or> c = 0xA0 \<or>
     c = 0x1680 \<or> (0x2000 \<le> c \<and> c \<le> 0x200A) \<or> c = 0x2028 \<or> c = 0x2029 \<or>
     c = 0x202F \<or> c = 0x205F \<or> c = 0x3000 \<or> c = 0xFEFF"

text \<open>\<open>s.replace(/[...]/g, r)\<close> for a class of single code units and a one-unit replacement.\<close>

definition replaceClass :: "(nat \<Rightarrow> bool) \<Rightarrow> nat \<Rightarrow> jsstring \<Rightarrow> jsstring" where
  "replaceClass cls r s = map (\<lambda>c. if cls c then r else c) s"

text \<open>
  \<open>s.replace(/\([^)]*\)/g, "")\<close>. The scan goes from left to right; an opening parenthesis
  starts a match exactly when a closing one follows somewhere, and the match then runs to
  the first closing parenthesis. The flag says whether the scan is inside a match.
\<close>

fun stripScan :: "bool \<Rightarrow> jsstring \<Rightarrow> jsstring" where
  "stripScan inside [] = []"
| "stripScan True (c # cs) = (if c = RPAREN then stripScan False cs else stripScan True cs)"
| "stripScan False (c # cs) =
     (if c = LPAREN \<and> RPAREN \<in> set cs then stripScan True cs else c # stripScan False cs)"

definition stripParens :: "jsstring \<Rightarrow> jsstring" where
  "stripParens s = stripScan False s"

text \<open>
  \<open>s.replace(/\s+/g, " ")\<close>: every maximal run of white space becomes one space. The
  flag says whether the code unit before was white space.
\<close>

fun collapseScan :: "bool \<Rightarrow> jsstring \<Rightarrow> jsstring" where
  "collapseScan prev [] = []"
| "collapseScan prev (c # cs) =
     (if isWhiteSpace c then (if prev then collapseScan True cs else SPACE # collapseScan True cs)
      else c # collapseScan False cs)"

definition collapseWhitespace :: "jsstring \<Rightarrow> jsstring" where
  "collapseWhitespace s = collapseScan False s"

definition trim :: "jsstring \<Rightarrow> jsstring" where
  "trim s = rev (dropWhile isWhiteSpace (rev (dropWhile isWhiteSpace s)))"

text \<open>\<open>haystack.includes(needle)\<close>.\<close>

fun includes_js :: "jsstring \<Rightarrow> jsstring \<Rightarrow> bool" where
  "includes_js [] needle = (needle = [])"
| "includes_js (c # cs) needle = (take (length needle) (c # cs) = needle \<or> includes_js cs needle)"

section \<open>Name normalization\<close>

text \<open>\<open>normalizeStationName\<close> of the live resolver (\<open>src/lib/data.ts\<close>).\<close>

definition normalizeStationName :: "jsstring \<Rightarrow> jsstring" where
  "normalizeStationName name =
     trim (collapseWhitespace (stripParens
       (replaceClass (\<lambda>c. c = SLASH \<or> c = BACKSLASH) SPACE
         (replaceClass (\<lambda>c. c = EN_DASH \<or> c = EM_DASH \<or> c = HYPHEN) SPACE
           (toLowerCase name)))))"

text \<open>\<open>normalizeName\<close> of the batch tool that attaches the subway entrances.\<close>

definition normalizeName :: "jsstring \<Rightarrow> jsstring" where
  "normalizeName name =
     trim (collapseWhitespace (stripParens
       (replaceClass (\<lambda>c. c = SLASH) SPACE
         (replaceClass (\<lambda>c. c = LEFT_SINGLE_QUOTE \<or> c = RIGHT_SINGLE_QUOTE) APOSTROPHE
           (replaceClass (\<lambda>c. c = EN_DASH \<or> c = EM_DASH \<or> c = HYPHEN) SPACE
             (toLowerCase name))))))"

section \<open>Canonical records\<close>

record UnitOutage =
  unitName :: jsstring
  unitType :: jsstring
  location :: jsstring
  symptom :: jsstring
  outOfServiceSince :: jsstring
  estimatedReturn :: "jsstring option"
  updatedAt :: jsstring

datatype AlertType = delay | emergency | advisory

record ServiceAlert =
  alert_id :: jsstring
  alert_type :: AlertType
  title :: jsstring
  description :: jsstring
  affectedLines :: "jsstring list option"
  affectedStations :: "jsstring list option"
  postedAt :: jsstring
  expiresAt :: "jsstring option"

record Summary =
  totalOutages :: nat
  elevatorOutages :: nat
  escalatorOutages :: nat
  stationsAffected :: nat
  activeAlerts :: "nat option"

text \<open>
  \<open>outagesByStation\<close> is a plain object used as a dictionary: an association list in
  insertion order. \<open>AList.update\<close> overwrites the value of a key in place and appends a
  new key at the end, as a property assignment does.
\<close>

type_synonym outages = "(jsstring \<times> UnitOutage list) list"

record IncidentData =
  fetchedAt :: jsstring
  systemId :: jsstring
  summary :: Summary
  alerts :: "ServiceAlert list option"
  outagesByStation :: outages

definition objectKeys :: "('k \<times> 'v) list \<Rightarrow> 'k list" where
  "objectKeys obj = map fst obj"

definition objectValues :: "('k \<times> 'v) list \<Rightarrow> 'v list" where
  "objectValues obj = map snd obj"

text \<open>
  \<open>if (!obj[k]) obj[k] = []; obj[k].push(x)\<close>: the idiom by which every pipeline files an
  outage under its station.
\<close>

definition pushOutage :: "outages \<Rightarrow> jsstring \<Rightarrow> UnitOutage \<Rightarrow> outages" where
  "pushOutage obj k x =
     (case map_of obj k of
        None \<Rightarrow> AList.update k [x] obj
      | Some xs \<Rightarrow> AList.update k (xs @ [x]) obj)"

section \<open>Alert classification\<close>

text \<open>
  \<open>mapGtfsEffect\<close>: the effect is a number of the GTFS-Realtime enumeration, or
  \<open>null\<close>/\<open>undefined\<close> (here \<open>None\<close>).
\<close>

definition mapGtfsEffect :: "int option \<Rightarrow> AlertType" where
  "mapGtfsEffect effect =
     (case effect of
        None \<Rightarrow> advisory
      | Some e \<Rightarrow>
          if e = 1 then emergency
          else if e = 2 \<or> e = 3 \<or> e = 4 \<or> e = 6 then delay
          else advisory)"

section \<open>The WMATA worker\<close>

record WMATAIncident =
  UnitName :: jsstring
  UnitType :: jsstring
  StationCode :: jsstring
  StationName :: jsstring
  LocationDescription :: jsstring
  SymptomDescription :: jsstring
  DateOutOfServ :: jsstring
  DateUpdated :: jsstring
  EstimatedReturnToService :: "jsstring option"

text \<open>
  What \<open>await fetch(url)\<close> can give: a rejection, or a response with its status and body.
  Of the body only what \<open>fetchWMATAIncidents\<close> looks at is kept: whether it parses as
  JSON, whether the parsed value is \<open>null\<close>, and the value of its property
  \<open>ElevatorIncidents\<close> (missing, a falsy value such as \<open>null\<close>, or the array).
\<close>

datatype incidents_field = Missing | Falsy | Present "WMATAIncident list"

datatype json_value = JsonNull | JsonValue incidents_field

datatype response_body = NotJson | Json json_value

datatype fetch_outcome = FetchRejected | Response nat response_body

datatype js_error =
    UpstreamError nat  \<comment> \<open>\<open>new Error(`WMATA API error: ${response.status}`)\<close>\<close>
  | NetworkError       \<comment> \<open>the rejection of \<open>fetch\<close>\<close>
  | SyntaxError        \<comment> \<open>\<open>response.json()\<close> on a body that is not JSON\<close>
  | TypeError          \<comment> \<open>a property read on \<open>null\<close>\<close>

text \<open>\<open>response.ok\<close>: the status is in the range 200--299.\<close>

definition response_ok :: "nat \<Rightarrow> bool" where
  "response_ok status \<longleftrightarrow> 200 \<le> status \<and> status \<le> 299"

definition fetchWMATAIncidents :: "fetch_outcome \<Rightarrow> js_error + WMATAIncident list" where
  "fetchWMATAIncidents r =
     (case r of
        FetchRejected \<Rightarrow> Inl NetworkError
      | Response status body \<Rightarrow>
          if \<not> response_ok status then Inl (UpstreamError status)
          else (case body of
                  NotJson \<Rightarrow> Inl SyntaxError
                | Json JsonNull \<Rightarrow> Inl TypeError
                | Json (JsonValue field) \<Rightarrow>
                    Inr (case field of Present incidents \<Rightarrow> incidents | _ \<Rightarrow> [])))"

definition STATION_CODE_MAP :: "jsstring \<rightharpoonup> jsstring" where
  "STATION_CODE_MAP = map_of (map (\<lambda>(code, stationId). (js code, js stationId))
    [(''A01'', ''metro-center''), (''A02'', ''farragut-north''), (''A03'', ''dupont-circle''),
     (''A04'', ''woodley-park''), (''A05'', ''cleveland-park''), (''A06'', ''van-ness-udc''),
     (''A07'', ''tenleytown-au''), (''A08'', ''friendship-heights''), (''A09'', ''bethesda''),
     (''A10'', ''medical-center''), (''A11'', ''grosvenor-strathmore''), (''A12'', ''white-flint''),
     (''A13'', ''twinbrook''), (''A14'', ''rockville''), (''A15'', ''shady-grove''),
     (''B01'', ''gallery-place''), (''B02'', ''judiciary-square''), (''B03'', ''union-station''),
     (''B04'', ''rhode-island-ave''), (''B05'', ''brookland-cua''), (''B06'', ''fort-totten''),
     (''B07'', ''takoma''), (''B08'', ''silver-spring''), (''B09'', ''forest-glen''),
     (''B10'', ''wheaton''), (''B11'', ''glenmont''), (''B35'', ''noma-gallaudet''),
     (''C01'', ''metro-center''), (''C02'', ''mcpherson-square''), (''C03'', ''farragut-west''),
     (''C04'', ''foggy-bottom''), (''C05'', ''rosslyn''), (''C06'', ''arlington-cemetery''),
     (''C07'', ''pentagon''), (''C08'', ''pentagon-city''), (''C09'', ''crystal-city''),
     (''C10'', ''reagan-national-airport''), (''C12'', ''braddock-road''), (''C13'', ''king-street''),
     (''C14'', ''eisenhower-ave''), (''C15'', ''huntington''), (''D01'', ''federal-triangle''),
     (''D02'', ''smithsonian''), (''D03'', ''l-enfant-plaza''), (''D04'', ''federal-center-sw''),
     (''D05'', ''capitol-south''), (''D06'', ''eastern-market''), (''D07'', ''potomac-ave''),
     (''D08'', ''stadium-armory''), (''D09'', ''minnesota-ave''), (''D10'', ''deanwood''),
     (''D11'', ''cheverly''), (''D12'', ''landover''), (''D13'', ''new-carrollton''),
     (''E01'', ''mt-vernon-sq''), (''E02'', ''shaw-howard''), (''E03'', ''u-street''),
     (''E04'', ''columbia-heights''), (''E05'', ''georgia-ave-petworth''), (''E06'', ''fort-totten''),
     (''E07'', ''west-hyattsville''), (''E08'', ''prince-georges-plaza''), (''E09'', ''college-park''),
     (''E10'', ''greenbelt''), (''F01'', ''gallery-place''), (''F02'', ''archives''),
     (''F03'', ''l-enfant-plaza''), (''F04'', ''waterfront''), (''F05'', ''navy-yard''),
     (''F06'', ''anacostia''), (''F07'', ''congress-heights''), (''F08'', ''southern-avenue''),
     (''F09'', ''naylor-road''), (''F10'', ''suitland''), (''F11'', ''branch-ave''),
     (''G01'', ''benning-road''), (''G02'', ''capitol-heights''), (''G03'', ''addison-road''),
     (''G04'', ''morgan-boulevard''), (''G05'', ''largo-town-center''), (''J02'', ''van-dorn-street''),
     (''J03'', ''franconia-springfield''), (''K01'', ''court-house''), (''K02'', ''clarendon''),
     (''K03'', ''virginia-square''), (''K04'', ''ballston-mu''), (''K05'', ''east-falls-church''),
     (''K06'', ''west-falls-church''), (''K07'', ''dunn-loring''), (''K08'', ''vienna''),
     (''N01'', ''mclean''), (''N02'', ''tysons-corner''), (''N03'', ''greensboro''),
     (''N04'', ''spring-hill''), (''N06'', ''wiehle-reston-east''), (''N07'', ''reston-town-center''),
     (''N08'', ''herndon''), (''N09'', ''innovation-center''), (''N10'', ''dulles-airport''),
     (''N11'', ''loudoun-gateway''), (''N12'', ''ashburn'')])"

text \<open>The first loop of \<open>processIncidents\<close>: file every incident under its station.\<close>

fun groupByStation :: "WMATAIncident list \<Rightarrow> outages \<Rightarrow> outages" where
  "groupByStation [] obj = obj"
| "groupByStation (incident # rest) obj =
     (case STATION_CODE_MAP (StationCode incident) of
        None \<Rightarrow> groupByStation rest obj
      | Some stationId \<Rightarrow>
          groupByStation rest (pushOutage obj stationId
            \<lparr>unitName = UnitName incident,
             unitType = toLowerCase (UnitType incident),
             location = LocationDescription incident,
             symptom = SymptomDescription incident,
             outOfServiceSince = DateOutOfServ incident,
             estimatedReturn = EstimatedReturnToService incident,
             updatedAt = DateUpdated incident\<rparr>))"

text \<open>The second loop: count the filed outages by type, as (elevators, escalators).\<close>

definition countUnits :: "outages \<Rightarrow> nat \<times> nat" where
  "countUnits obj =
     foldl (\<lambda>(elevators, escalators) u.
              if unitType u = js ''elevator'' then (elevators + 1, escalators)
              else (elevators, escalators + 1))
       (0, 0) (concat (objectValues obj))"

text \<open>\<open>processIncidents\<close>; \<open>now\<close> is \<open>new Date().toISOString()\<close>.\<close>

definition processIncidents :: "jsstring \<Rightarrow> WMATAIncident list \<Rightarrow> IncidentData" where
  "processIncidents now incidents =
     (let obj = groupByStation incidents [];
          counts = countUnits obj
      in \<lparr>fetchedAt = now,
          systemId = js ''wmata'',
          summary = \<lparr>totalOutages = length incidents,
                     elevatorOutages = fst counts,
                     escalatorOutages = snd counts,
                     stationsAffected = length (objectKeys obj),
                     activeAlerts = None\<rparr>,
          alerts = None,
          outagesByStation = obj\<rparr>)"

section \<open>Equipment outages inferred from alert text\<close>

definition hasDisruptionKeyword :: "jsstring \<Rightarrow> bool" where
  "hasDisruptionKeyword lowerFullText \<longleftrightarrow>
     includes_js lowerFullText (js ''out of service'') \<or>
     includes_js lowerFullText (js ''unavailable'') \<or>
     includes_js lowerFullText (js ''closed'') \<or>
     includes_js lowerFullText (js ''outage'')"

definition hasElevatorOutage :: "jsstring \<Rightarrow> bool" where
  "hasElevatorOutage fullText \<longleftrightarrow>
     includes_js (toLowerCase fullText) (js ''elevator'') \<and>
     hasDisruptionKeyword (toLowerCase fullText)"

definition hasEscalatorOutage :: "jsstring \<Rightarrow> bool" where
  "hasEscalatorOutage fullText \<longleftrightarrow>
     includes_js (toLowerCase fullText) (js ''escalator'') \<and>
     hasDisruptionKeyword (toLowerCase fullText)"

definition elevatorEntry :: "jsstring \<Rightarrow> jsstring \<Rightarrow> jsstring option \<Rightarrow> UnitOutage" where
  "elevatorEntry headerText posted expires =
     \<lparr>unitName = js ''Elevator'', unitType = js ''elevator'', location = headerText,
      symptom = js ''Out of service'', outOfServiceSince = posted,
      estimatedReturn = expires, updatedAt = posted\<rparr>"

definition escalatorEntry :: "jsstring \<Rightarrow> jsstring \<Rightarrow> jsstring option \<Rightarrow> UnitOutage" where
  "escalatorEntry headerText posted expires =
     \<lparr>unitName = js ''Escalator'', unitType = js ''escalator'', location = headerText,
      symptom = js ''Out of service'', outOfServiceSince = posted,
      estimatedReturn = expires, updatedAt = posted\<rparr>"

text \<open>
  The loop over the affected stations. The state is the object under construction with
  the two counters; \<open>elev\<close> and \<open>esc\<close> are the two flags, \<open>e\<close> and \<open>s\<close> the entries to push.
\<close>

fun fileOutages ::
  "bool \<Rightarrow> bool \<Rightarrow> UnitOutage \<Rightarrow> UnitOutage \<Rightarrow> jsstring list \<Rightarrow>
   nat \<times> nat \<times> outages \<Rightarrow> nat \<times> nat \<times> outages" where
  "fileOutages elev esc e s [] acc = acc"
| "fileOutages elev esc e s (stationId # rest) (elevators, escalators, obj) =
     (let obj0 = (if map_of obj stationId = None then AList.update stationId [] obj else obj);
          obj1 = (if elev then pushOutage obj0 stationId e else obj0);
          elevators1 = (if elev then elevators + 1 else elevators);
          obj2 = (if esc then pushOutage obj1 stationId s else obj1);
          escalators1 = (if esc then escalators + 1 else escalators)
      in fileOutages elev esc e s rest (elevators1, escalators1, obj2))"

text \<open>
  \<open>detectEquipmentOutages\<close> returns the two counters and mutates \<open>outagesByStation\<close>; the
  model returns the counters together with the object after the call.
\<close>

definition detectEquipmentOutages ::
  "jsstring \<Rightarrow> jsstring list \<Rightarrow> outages \<Rightarrow> jsstring \<Rightarrow> jsstring \<Rightarrow> jsstring option \<Rightarrow>
   nat \<times> nat \<times> outages" where
  "detectEquipmentOutages fullText stations obj headerText posted expires =
     (if (hasElevatorOutage fullText \<or> hasEscalatorOutage fullText) \<and> length stations > 0
      then fileOutages (hasElevatorOutage fullText) (hasEscalatorOutage fullText)
             (elevatorEntry headerText posted expires) (escalatorEntry headerText posted expires)
             stations (0, 0, obj)
      else (0, 0, obj))"

section \<open>The incident aggregator\<close>

text \<open>
  A fetch pipeline is an asynchronous function of the network: its promise is rejected, or
  fulfilled with an \<open>IncidentData\<close> or with \<open>null\<close>. The environment of one call of
  \<open>getIncidents\<close> gives the outcome each pipeline would have when run.
\<close>

datatype 'a outcome = Threw | Returned 'a

record Fetchers =
  fetchBartIncidents :: "IncidentData option outcome"
  fetchWmataIncidents :: "IncidentData option outcome"
  fetchSoundTransitIncidents :: "IncidentData option outcome"
  fetchNycSubwayIncidents :: "IncidentData option outcome"
  fetchBaltimoreMetroIncidents :: "IncidentData option outcome"
  fetchBaltimoreLightRailIncidents :: "IncidentData option outcome"
  fetchTokyoMetroIncidents :: "IncidentData option outcome"

text \<open>
  An entry of \<open>incidentCache\<close>; \<open>cachedAt\<close> is the field \<open>fetchedAt\<close> of the entry, in
  milliseconds (the name \<open>fetchedAt\<close> is taken by \<open>IncidentData\<close>).
\<close>

record CacheEntry =
  data :: IncidentData
  cachedAt :: int

text \<open>
  The state of the module: the cache, and a log of the pipelines that were run, which
  stands for the network activity.
\<close>

record AggregatorState =
  incidentCache :: "jsstring \<rightharpoonup> CacheEntry"
  fetchLog :: "jsstring list"

definition CACHE_TTL :: int where
  "CACHE_TTL = 5 * 60 * 1000"

definition supportedSystems :: "jsstring list" where
  "supportedSystems =
     [js ''wmata'', js ''bart'', js ''sound-transit'', js ''nyc-subway'',
      js ''baltimore-metro'', js ''baltimore-light-rail'', js ''tokyo-metro'']"

text \<open>The chain of \<open>if\<close>/\<open>else if\<close> that runs the pipeline of a system.\<close>

definition runPipeline :: "Fetchers \<Rightarrow> jsstring \<Rightarrow> IncidentData option outcome" where
  "runPipeline env sid =
     (if sid = js ''bart'' then fetchBartIncidents env
      else if sid = js ''wmata'' then fetchWmataIncidents env
      else if sid = js ''sound-transit'' then fetchSoundTransitIncidents env
      else if sid = js ''nyc-subway'' then fetchNycSubwayIncidents env
      else if sid = js ''baltimore-metro'' then fetchBaltimoreMetroIncidents env
      else if sid = js ''baltimore-light-rail'' then fetchBaltimoreLightRailIncidents env
      else if sid = js ''tokyo-metro'' then fetchTokyoMetroIncidents env
      else Returned None)"

text \<open>
  The condition \<open>cached && Date.now() - cached.fetchedAt < CACHE_TTL\<close>, with the entry it
  holds for; \<open>now\<close> is the value of \<open>Date.now()\<close>.
\<close>

definition freshEntry :: "AggregatorState \<Rightarrow> int \<Rightarrow> jsstring \<Rightarrow> CacheEntry option" where
  "freshEntry st now sid =
     (case incidentCache st sid of
        None \<Rightarrow> None
      | Some cached \<Rightarrow> if now - cachedAt cached < CACHE_TTL then Some cached else None)"

text \<open>
  \<open>getIncidents\<close>. \<open>nowCheck\<close> and \<open>nowStore\<close> are the values of the two calls of
  \<open>Date.now()\<close>, at the cache check and at the store. The result is the outcome of the
  promise with the state after the call.
\<close>

definition getIncidents ::
  "Fetchers \<Rightarrow> int \<Rightarrow> int \<Rightarrow> jsstring \<Rightarrow> AggregatorState \<Rightarrow>
   IncidentData option outcome \<times> AggregatorState" where
  "getIncidents env nowCheck nowStore sid st =
     (if sid \<notin> set supportedSystems then (Returned None, st)
      else
        (case freshEntry st nowCheck sid of
           Some cached \<Rightarrow> (Returned (Some (data cached)), st)
         | None \<Rightarrow>
             (let st1 = st\<lparr>fetchLog := fetchLog st @ [sid]\<rparr>
              in case runPipeline env sid of
                   Threw \<Rightarrow> (Threw, st1)
                 | Returned None \<Rightarrow> (Returned None, st1)
                 | Returned (Some d) \<Rightarrow>
                     (Returned (Some d),
                      st1\<lparr>incidentCache :=
                            (incidentCache st1)(sid \<mapsto> \<lparr>data = d, cachedAt = nowStore\<rparr>)\<rparr>))))"

section \<open>Disambiguation of stations that share a name\<close>

subsection \<open>The batch tool\<close>

record Coordinates =
  lat :: real
  lng :: real

text \<open>Of a station and of a row of the entrance file, the fields the matching reads.\<close>

record Station =
  station_id :: jsstring
  station_name :: jsstring
  lines :: "jsstring list"
  coordinates :: "Coordinates option"

record CsvRow =
  constituentStationName :: jsstring
  daytimeRoutes :: "jsstring list"
  row_lat :: real
  row_lng :: real

definition SHUTTLE_ROUTE_MAP :: "jsstring \<rightharpoonup> jsstring list" where
  "SHUTTLE_ROUTE_MAP = [js ''S'' \<mapsto> [js ''S-42'', js ''S-franklin'', js ''S-rockaway'']]"

definition lineOverlap :: "jsstring list \<Rightarrow> jsstring list \<Rightarrow> int" where
  "lineOverlap csvRoutes stationLines =
     foldl (\<lambda>score route.
              (let score1 = (if route \<in> set stationLines then score + 1 else score)
               in case SHUTTLE_ROUTE_MAP route of
                    None \<Rightarrow> score1
                  | Some mapped \<Rightarrow>
                      foldl (\<lambda>sc m. if m \<in> set stationLines then sc + 1 else sc) score1 mapped))
       0 csvRoutes"

text \<open>\<open>haversineMeters\<close>, over the real numbers (the rounding of the floating-point operations is left out).\<close>

definition haversineMeters :: "real \<Rightarrow> real \<Rightarrow> real \<Rightarrow> real \<Rightarrow> real" where
  "haversineMeters lat1 lng1 lat2 lng2 =
     (let R = 6371000;
          dLat = ((lat2 - lat1) * pi) / 180;
          dLng = ((lng2 - lng1) * pi) / 180;
          a = (sin (dLat / 2))\<^sup>2 +
              cos ((lat1 * pi) / 180) * cos ((lat2 * pi) / 180) * (sin (dLng / 2))\<^sup>2
      in 2 * R * arcsin (sqrt a))"

text \<open>A distance: a number, or \<open>Infinity\<close> for a station without coordinates.\<close>

datatype distance = Finite real | Infinity

record Scored =
  station :: Station
  overlap :: int
  dist :: distance

text \<open>
  Whether the comparator \<open>(a, b) => a.dist - b.dist\<close> gives a positive number.
  \<open>Infinity - Infinity\<close> is \<open>NaN\<close>, which \<open>sort\<close> reads as zero.
\<close>

fun comparatorPositive :: "distance \<Rightarrow> distance \<Rightarrow> bool" where
  "comparatorPositive (Finite x) (Finite y) = (x - y > 0)"
| "comparatorPositive Infinity (Finite y) = True"
| "comparatorPositive (Finite x) Infinity = False"
| "comparatorPositive Infinity Infinity = False"

text \<open>
  \<open>Array.prototype.sort\<close> is stable, and this comparator orders the distances
  consistently, so the sorted array is the one a stable insertion sort builds.
\<close>

fun insertByDist :: "Scored \<Rightarrow> Scored list \<Rightarrow> Scored list" where
  "insertByDist x [] = [x]"
| "insertByDist x (y # ys) =
     (if comparatorPositive (dist x) (dist y) then y # insertByDist x ys else x # y # ys)"

definition sortByDist :: "Scored list \<Rightarrow> Scored list" where
  "sortByDist xs = foldr insertByDist xs []"

definition scoreCandidate :: "CsvRow \<Rightarrow> Station \<Rightarrow> Scored" where
  "scoreCandidate row c =
     \<lparr>station = c,
      overlap = lineOverlap (daytimeRoutes row) (lines c),
      dist = (case coordinates c of
                Some co \<Rightarrow> Finite (haversineMeters (lat co) (lng co) (row_lat row) (row_lng row))
              | None \<Rightarrow> Infinity)\<rparr>"

text \<open>
  The choice of \<open>bestStation\<close> in the matching loop of \<open>main\<close>: a row without candidates
  is unmatched; \<open>topCandidates[0]\<close> of an empty array would be a \<open>TypeError\<close>.
\<close>

datatype 'a matching = Unmatched | Matched 'a | MatchingError

definition bestStation :: "CsvRow \<Rightarrow> Station list \<Rightarrow> Station matching" where
  "bestStation row candidates =
     (case candidates of
        [] \<Rightarrow> Unmatched
      | [c] \<Rightarrow> Matched c
      | c # others \<Rightarrow>
          (let scored = map (scoreCandidate row) candidates;
               maxOverlap = foldl max (overlap (scoreCandidate row c)) (map overlap (tl scored));
               topCandidates = filter (\<lambda>s. overlap s \<ge> maxOverlap - 1 \<and> overlap s \<ge> 0) scored
           in case sortByDist topCandidates of
                [] \<Rightarrow> MatchingError
              | t # _ \<Rightarrow> Matched (station t)))"

subsection \<open>The live resolver\<close>

record IndexEntry =
  entry_id :: jsstring
  entry_lines :: "jsstring list"

definition NYC_SUBWAY_ROUTE_MAP :: "jsstring \<rightharpoonup> jsstring" where
  "NYC_SUBWAY_ROUTE_MAP =
     [js ''GS'' \<mapsto> js ''S-42'', js ''FS'' \<mapsto> js ''S-franklin'', js ''H'' \<mapsto> js ''S-rockaway'']"

definition mapNycRouteId :: "jsstring \<Rightarrow> jsstring option" where
  "mapNycRouteId routeId =
     (if routeId = js ''SI'' then None
      else (case NYC_SUBWAY_ROUTE_MAP routeId of
              Some lineId \<Rightarrow> Some (if lineId = [] then routeId else lineId)
            | None \<Rightarrow> Some routeId))"

text \<open>\<open>s.split(sep)\<close> for a separator of one code unit.\<close>

fun split_js :: "nat \<Rightarrow> jsstring \<Rightarrow> jsstring list" where
  "split_js sep [] = [[]]"
| "split_js sep (c # cs) =
     (if c = sep then [] # split_js sep cs
      else (case split_js sep cs of
              [] \<Rightarrow> [[c]]
            | w # ws \<Rightarrow> (c # w) # ws))"

definition outageLines :: "jsstring \<Rightarrow> jsstring list" where
  "outageLines trainno = List.map_filter mapNycRouteId (map trim (split_js SLASH trainno))"

definition entryOverlap :: "jsstring list \<Rightarrow> IndexEntry \<Rightarrow> nat" where
  "entryOverlap routes c = length (filter (\<lambda>l. l \<in> set routes) (entry_lines c))"

text \<open>
  The choice of \<open>matchedStation\<close> in \<open>fetchNycSubwayIncidents\<close>; \<open>None\<close> when the index has
  no candidate and the outage is skipped.
\<close>

definition matchedStation :: "jsstring \<Rightarrow> IndexEntry list \<Rightarrow> IndexEntry option" where
  "matchedStation trainno candidates =
     (case candidates of
        [] \<Rightarrow> None
      | c # others \<Rightarrow>
          if length candidates > 1 \<and> trainno \<noteq> [] then
            (let routes = outageLines trainno;
                 best = foldl (\<lambda>a b. if entryOverlap routes b > entryOverlap routes a then b else a)
                          c others
             in if entryOverlap routes best > 0 then Some best else Some c)
          else Some c)"

text \<open>What \<open>obj[k] || []\<close> reads: the outages filed under a station so far.\<close>

definition existingOutages :: "outages \<Rightarrow> jsstring \<Rightarrow> UnitOutage list" where
  "existingOutages obj k = (case map_of obj k of None \<Rightarrow> [] | Some xs \<Rightarrow> xs)"

section \<open>Notions used in the proofs about normalization\<close>

text \<open>
  Conditions on a rule of the lowercase table: its outputs avoid a given code point; its
  outputs are scalar values, that is, code points other than surrogates.
\<close>

definition ruleAvoids :: "nat \<Rightarrow> caseRule \<Rightarrow> bool" where
  "ruleAvoids q r = (case r of (start, stop, step, target) \<Rightarrow>
     q < target \<or> target + (stop - start) < q)"

definition isScalar :: "nat \<Rightarrow> bool" where
  "isScalar c \<longleftrightarrow> c < 0xD800 \<or> (0xE000 \<le> c \<and> c < 0x110000)"

definition ruleScalar :: "caseRule \<Rightarrow> bool" where
  "ruleScalar r = (case r of (start, stop, step, target) \<Rightarrow>
     target + (stop - start) < 0xD800 \<or> (0xE000 \<le> target \<and> target + (stop - start) < 0x110000))"

text \<open>The rules of \<open>LOWERCASE_RULES\<close>, arranged as a balanced search tree.\<close>

definition RULE_TREE :: "caseRule tree" where
  "RULE_TREE =
     (Node (Node (Node (Node (Node (Node (Node (Node Leaf (0x0041, 0x005A, 1, 0x0061) Leaf)
     (0x00C0, 0x00D6, 1, 0x00E0) Leaf) (0x00D8, 0x00DE, 1, 0x00F8) (Node (Node Leaf
     (0x0100, 0x012E, 2, 0x0101) Leaf) (0x0132, 0x0136, 2, 0x0133) Leaf)) (0x0139, 0x0147, 2, 0x013A)
     (Node (Node (Node Leaf (0x014A, 0x0176, 2, 0x014B) Leaf) (0x0178, 0x0178, 2, 0x00FF) Leaf)
     (0x0179, 0x017D, 2, 0x017A) (Node (Node Leaf (0x0181, 0x0181, 2, 0x0253) Leaf)
     (0x0182, 0x0184, 2, 0x0183) Leaf))) (0x0186, 0x0186, 2, 0x0254) (Node (Node (Node (Node Leaf
     (0x0187, 0x0187, 2, 0x0188) Leaf) (0x0189, 0x018A, 1, 0x0256) Leaf) (0x018B, 0x018B, 2, 0x018C)
     (Node (Node Leaf (0x018E, 0x018E, 2, 0x01DD) Leaf) (0x018F, 0x018F, 2, 0x0259) Leaf))
     (0x0190, 0x0190, 2, 0x025B) (Node (Node (Node Leaf (0x0191, 0x0191, 2, 0x0192) Leaf)
     (0x0193, 0x0193, 2, 0x0260) Leaf) (0x0194, 0x0194, 2, 0x0263) (Node Leaf
     (0x0196, 0x0196, 2, 0x0269) Leaf)))) (0x0197, 0x0197, 2, 0x0268) (Node (Node (Node (Node (Node
     Leaf (0x0198, 0x0198, 2, 0x0199) Leaf) (0x019C, 0x019C, 2, 0x026F) Leaf)
     (0x019D, 0x019D, 2, 0x0272) (Node (Node Leaf (0x019F, 0x019F, 2, 0x0275) Leaf)
     (0x01A0, 0x01A4, 2, 0x01A1) Leaf)) (0x01A6, 0x01A6, 2, 0x0280) (Node (Node (Node Leaf
     (0x01A7, 0x01A7, 2, 0x01A8) Leaf) (0x01A9, 0x01A9, 2, 0x0283) Leaf) (0x01AC, 0x01AC, 2, 0x01AD)
     (Node (Node Leaf (0x01AE, 0x01AE, 2, 0x0288) Leaf) (0x01AF, 0x01AF, 2, 0x01B0) Leaf)))
     (0x01B1, 0x01B2, 1, 0x028A) (Node (Node (Node (Node Leaf (0x01B3, 0x01B5, 2, 0x01B4) Leaf)
     (0x01B7, 0x01B7, 2, 0x0292) Leaf) (0x01B8, 0x01B8, 2, 0x01B9) (Node (Node Leaf
     (0x01BC, 0x01BC, 2, 0x01BD) Leaf) (0x01C4, 0x01C4, 2, 0x01C6) Leaf)) (0x01C5, 0x01C5, 2, 0x01C6)
     (Node (Node (Node Leaf (0x01C7, 0x01C7, 2, 0x01C9) Leaf) (0x01C8, 0x01C8, 2, 0x01C9) Leaf)
     (0x01CA, 0x01CA, 2, 0x01CC) (Node Leaf (0x01CB, 0x01DB, 2, 0x01CC) Leaf)))))
     (0x01DE, 0x01EE, 2, 0x01DF) (Node (Node (Node (Node (Node (Node Leaf (0x01F1, 0x01F1, 2, 0x01F3)
     Leaf) (0x01F2, 0x01F4, 2, 0x01F3) Leaf) (0x01F6, 0x01F6, 2, 0x0195) (Node (Node Leaf
     (0x01F7, 0x01F7, 2, 0x01BF) Leaf) (0x01F8, 0x021E, 2, 0x01F9) Leaf)) (0x0220, 0x0220, 2, 0x019E)
     (Node (Node (Node Leaf (0x0222, 0x0232, 2, 0x0223) Leaf) (0x023A, 0x023A, 2, 0x2C65) Leaf)
     (0x023B, 0x023B, 2, 0x023C) (Node (Node Leaf (0x023D, 0x023D, 2, 0x019A) Leaf)
     (0x023E, 0x023E, 2, 0x2C66) Leaf))) (0x0241, 0x0241, 2, 0x0242) (Node (Node (Node (Node Leaf
     (0x0243, 0x0243, 2, 0x0180) Leaf) (0x0244, 0x0244, 2, 0x0289) Leaf) (0x0245, 0x0245, 2, 0x028C)
     (Node (Node Leaf (0x0246, 0x024E, 2, 0x0247) Leaf) (0x0370, 0x0372, 2, 0x0371) Leaf))
     (0x0376, 0x0376, 2, 0x0377) (Node (Node (Node Leaf (0x037F, 0x037F, 2, 0x03F3) Leaf)
     (0x0386, 0x0386, 2, 0x03AC) Leaf) (0x0388, 0x038A, 1, 0x03AD) (Node Leaf
     (0x038C, 0x038C, 2, 0x03CC) Leaf)))) (0x038E, 0x038F, 1, 0x03CD) (Node (Node (Node (Node (Node
     Leaf (0x0391, 0x03A1, 1, 0x03B1) Leaf) (0x03A3, 0x03AB, 1, 0x03C3) Leaf)
     (0x03CF, 0x03CF, 2, 0x03D7) (Node (Node Leaf (0x03D8, 0x03EE, 2, 0x03D9) Leaf)
     (0x03F4, 0x03F4, 2, 0x03B8) Leaf)) (0x03F7, 0x03F7, 2, 0x03F8) (Node (Node (Node Leaf
     (0x03F9, 0x03F9, 2, 0x03F2) Leaf) (0x03FA, 0x03FA, 2, 0x03FB) Leaf) (0x03FD, 0x03FF, 1, 0x037B)
     (Node Leaf (0x0400, 0x040F, 1, 0x0450) Leaf))) (0x0410, 0x042F, 1, 0x0430) (Node (Node (Node
     (Node Leaf (0x0460, 0x0480, 2, 0x0461) Leaf) (0x048A, 0x04BE, 2, 0x048B) Leaf)
     (0x04C0, 0x04C0, 2, 0x04CF) (Node (Node Leaf (0x04C1, 0x04CD, 2, 0x04C2) Leaf)
     (0x04D0, 0x052E, 2, 0x04D1) Leaf)) (0x0531, 0x0556, 1, 0x0561) (Node (Node (Node Leaf
     (0x10A0, 0x10C5, 1, 0x2D00) Leaf) (0x10C7, 0x10C7, 2, 0x2D27) Leaf) (0x10CD, 0x10CD, 2, 0x2D2D)
     (Node Leaf (0x13A0, 0x13EF, 1, 0xAB70) Leaf)))))) (0x13F0, 0x13F5, 1, 0x13F8) (Node (Node (Node
     (Node (Node (Node (Node Leaf (0x1C90, 0x1CBA, 1, 0x10D0) Leaf) (0x1CBD, 0x1CBF, 1, 0x10FD) Leaf)
     (0x1E00, 0x1E94, 2, 0x1E01) (Node (Node Leaf (0x1E9E, 0x1E9E, 2, 0x00DF) Leaf)
     (0x1EA0, 0x1EFE, 2, 0x1EA1) Leaf)) (0x1F08, 0x1F0F, 1, 0x1F00) (Node (Node (Node Leaf
     (0x1F18, 0x1F1D, 1, 0x1F10) Leaf) (0x1F28, 0x1F2F, 1, 0x1F20) Leaf) (0x1F38, 0x1F3F, 1, 0x1F30)
     (Node (Node Leaf (0x1F48, 0x1F4D, 1, 0x1F40) Leaf) (0x1F59, 0x1F5F, 2, 0x1F51) Leaf)))
     (0x1F68, 0x1F6F, 1, 0x1F60) (Node (Node (Node (Node Leaf (0x1F88, 0x1F8F, 1, 0x1F80) Leaf)
     (0x1F98, 0x1F9F, 1, 0x1F90) Leaf) (0x1FA8, 0x1FAF, 1, 0x1FA0) (Node (Node Leaf
     (0x1FB8, 0x1FB9, 1, 0x1FB0) Leaf) (0x1FBA, 0x1FBB, 1, 0x1F70) Leaf)) (0x1FBC, 0x1FBC, 2, 0x1FB3)
     (Node (Node (Node Leaf (0x1FC8, 0x1FCB, 1, 0x1F72) Leaf) (0x1FCC, 0x1FCC, 2, 0x1FC3) Leaf)
     (0x1FD8, 0x1FD9, 1, 0x1FD0) (Node Leaf (0x1FDA, 0x1FDB, 1, 0x1F76) Leaf))))
     (0x1FE8, 0x1FE9, 1, 0x1FE0) (Node (Node (Node (Node (Node Leaf (0x1FEA, 0x1FEB, 1, 0x1F7A) Leaf)
     (0x1FEC, 0x1FEC, 2, 0x1FE5) Leaf) (0x1FF8, 0x1FF9, 1, 0x1F78) (Node (Node Leaf
     (0x1FFA, 0x1FFB, 1, 0x1F7C) Leaf) (0x1FFC, 0x1FFC, 2, 0x1FF3) Leaf)) (0x2126, 0x2126, 2, 0x03C9)
     (Node (Node (Node Leaf (0x212A, 0x212A, 2, 0x006B) Leaf) (0x212B, 0x212B, 2, 0x00E5) Leaf)
     (0x2132, 0x2132, 2, 0x214E) (Node (Node Leaf (0x2160, 0x216F, 1, 0x2170) Leaf)
     (0x2183, 0x2183, 2, 0x2184) Leaf))) (0x24B6, 0x24CF, 1, 0x24D0) (Node (Node (Node (Node Leaf
     (0x2C00, 0x2C2F, 1, 0x2C30) Leaf) (0x2C60, 0x2C60, 2, 0x2C61) Leaf) (0x2C62, 0x2C62, 2, 0x026B)
     (Node (Node Leaf (0x2C63, 0x2C63, 2, 0x1D7D) Leaf) (0x2C64, 0x2C64, 2, 0x027D) Leaf))
     (0x2C67, 0x2C6B, 2, 0x2C68) (Node (Node (Node Leaf (0x2C6D, 0x2C6D, 2, 0x0251) Leaf)
     (0x2C6E, 0x2C6E, 2, 0x0271) Leaf) (0x2C6F, 0x2C6F, 2, 0x0250) (Node Leaf
     (0x2C70, 0x2C70, 2, 0x0252) Leaf))))) (0x2C72, 0x2C72, 2, 0x2C73) (Node (Node (Node (Node (Node
     (Node Leaf (0x2C75, 0x2C75, 2, 0x2C76) Leaf) (0x2C7E, 0x2C7F, 1, 0x023F) Leaf)
     (0x2C80, 0x2CE2, 2, 0x2C81) (Node (Node Leaf (0x2CEB, 0x2CED, 2, 0x2CEC) Leaf)
     (0x2CF2, 0x2CF2, 2, 0x2CF3) Leaf)) (0xA640, 0xA66C, 2, 0xA641) (Node (Node (Node Leaf
     (0xA680, 0xA69A, 2, 0xA681) Leaf) (0xA722, 0xA72E, 2, 0xA723) Leaf) (0xA732, 0xA76E, 2, 0xA733)
     (Node (Node Leaf (0xA779, 0xA77B, 2, 0xA77A) Leaf) (0xA77D, 0xA77D, 2, 0x1D79) Leaf)))
     (0xA77E, 0xA786, 2, 0xA77F) (Node (Node (Node (Node Leaf (0xA78B, 0xA78B, 2, 0xA78C) Leaf)
     (0xA78D, 0xA78D, 2, 0x0265) Leaf) (0xA790, 0xA792, 2, 0xA791) (Node (Node Leaf
     (0xA796, 0xA7A8, 2, 0xA797) Leaf) (0xA7AA, 0xA7AA, 2, 0x0266) Leaf)) (0xA7AB, 0xA7AB, 2, 0x025C)
     (Node (Node (Node Leaf (0xA7AC, 0xA7AC, 2, 0x0261) Leaf) (0xA7AD, 0xA7AD, 2, 0x026C) Leaf)
     (0xA7AE, 0xA7AE, 2, 0x026A) (Node Leaf (0xA7B0, 0xA7B0, 2, 0x029E) Leaf))))
     (0xA7B1, 0xA7B1, 2, 0x0287) (Node (Node (Node (Node (Node Leaf (0xA7B2, 0xA7B2, 2, 0x029D) Leaf)
     (0xA7B3, 0xA7B3, 2, 0xAB53) Leaf) (0xA7B4, 0xA7C2, 2, 0xA7B5) (Node (Node Leaf
     (0xA7C4, 0xA7C4, 2, 0xA794) Leaf) (0xA7C5, 0xA7C5, 2, 0x0282) Leaf)) (0xA7C6, 0xA7C6, 2, 0x1D8E)
     (Node (Node (Node Leaf (0xA7C7, 0xA7C9, 2, 0xA7C8) Leaf) (0xA7D0, 0xA7D0, 2, 0xA7D1) Leaf)
     (0xA7D6, 0xA7D8, 2, 0xA7D7) (Node Leaf (0xA7F5, 0xA7F5, 2, 0xA7F6) Leaf)))
     (0xFF21, 0xFF3A, 1, 0xFF41) (Node (Node (Node (Node Leaf (0x10400, 0x10427, 1, 0x10428) Leaf)
     (0x104B0, 0x104D3, 1, 0x104D8) Leaf) (0x10570, 0x1057A, 1, 0x10597) (Node (Node Leaf
     (0x1057C, 0x1058A, 1, 0x105A3) Leaf) (0x1058C, 0x10592, 1, 0x105B3) Leaf))
     (0x10594, 0x10595, 1, 0x105BB) (Node (Node (Node Leaf (0x10C80, 0x10CB2, 1, 0x10CC0) Leaf)
     (0x118A0, 0x118BF, 1, 0x118C0) Leaf) (0x16E40, 0x16E5F, 1, 0x16E60) (Node Leaf
     (0x1E900, 0x1E921, 1, 0x1E922) Leaf)))))))"

fun allRules :: "(caseRule \<Rightarrow> bool) \<Rightarrow> caseRule tree \<Rightarrow> bool" where
  "allRules P Leaf = True"
| "allRules P (Node l r rt) = (P r \<and> allRules P l \<and> allRules P rt)"

text \<open>
  A search tree of rules: every rule of the tree lies between the bounds, the rules of a
  left subtree end before the rule of the node begins, those of a right subtree begin after
  it ends.
\<close>

fun bounded :: "nat \<Rightarrow> nat \<Rightarrow> caseRule tree \<Rightarrow> bool" where
  "bounded lo hi Leaf = True"
| "bounded lo hi (Node l (start, stop, step, target) rt) =
     (lo \<le> start \<and> start \<le> stop \<and> stop < hi \<and> bounded lo start l \<and> bounded (Suc stop) hi rt)"

text \<open>
  Whether the progression \<open>a\<close>, \<open>a + step\<close>, ... up to \<open>b\<close> is clear of the rules of a
  search tree: every rule begins after \<open>b\<close>, or ends before \<open>a\<close>, or has the step 2 as the
  progression does and begins at the other parity.
\<close>

fun clearOf :: "nat \<Rightarrow> nat \<Rightarrow> nat \<Rightarrow> caseRule tree \<Rightarrow> bool" where
  "clearOf a b step Leaf = True"
| "clearOf a b step (Node l (start', stop', step', target') rt) =
     (if b < start' then clearOf a b step l
      else if stop' < a then clearOf a b step rt
      else (step = 2 \<and> step' = 2 \<and> a mod 2 \<noteq> start' mod 2) \<and>
           clearOf a b step l \<and> clearOf a b step rt)"

text \<open>
  What the character-wise replacements of each normalizer do to one code unit.
\<close>

definition liveUnit :: "nat \<Rightarrow> nat" where
  "liveUnit c =
     (let d = (if c = EN_DASH \<or> c = EM_DASH \<or> c = HYPHEN then SPACE else c)
      in if d = SLASH \<or> d = BACKSLASH then SPACE else d)"

definition batchUnit :: "nat \<Rightarrow> nat" where
  "batchUnit c =
     (let d = (if c = EN_DASH \<or> c = EM_DASH \<or> c = HYPHEN then SPACE else c);
          q = (if d = LEFT_SINGLE_QUOTE \<or> d = RIGHT_SINGLE_QUOTE then APOSTROPHE else d)
      in if q = SLASH then SPACE else q)"

text \<open>
  A well-formed string: every surrogate code unit is half of a pair, a high surrogate
  followed by a low one.
\<close>

definition isScalarUnit :: "nat \<Rightarrow> bool" where
  "isScalarUnit u \<longleftrightarrow> u < 0xD800 \<or> (0xE000 \<le> u \<and> u < 0x10000)"

fun wellFormed :: "jsstring \<Rightarrow> bool" where
  "wellFormed [] = True"
| "wellFormed [u] = isScalarUnit u"
| "wellFormed (u # v # rest) =
     (if isHighSurrogate u then isLowSurrogate v \<and> wellFormed rest
      else isScalarUnit u \<and> wellFormed (v # rest))"

text \<open>A code point that the lowercase conversion leaves as it is, in every context.\<close>

definition fixedPoint :: "nat \<Rightarrow> bool" where
  "fixedPoint c \<longleftrightarrow> c \<noteq> 0x130 \<and> simpleLower c = c"

text \<open>A well-formed string all of whose code points are such fixed points.\<close>

fun lowercased :: "jsstring \<Rightarrow> bool" where
  "lowercased [] = True"
| "lowercased [u] = (isScalarUnit u \<and> fixedPoint u)"
| "lowercased (u # v # rest) =
     (if isHighSurrogate u
      then isLowSurrogate v \<and> fixedPoint (pairValue u v) \<and> lowercased rest
      else isScalarUnit u \<and> fixedPoint u \<and> lowercased (v # rest))"

text \<open>
  A string in which no opening parenthesis is followed, anywhere, by a closing one: the
  regular expression \<open>\([^)]*\)\<close> has no match in it.
\<close>

fun noMatch :: "jsstring \<Rightarrow> bool" where
  "noMatch [] = True"
| "noMatch (c # cs) = ((c = LPAREN \<longrightarrow> RPAREN \<notin> set cs) \<and> noMatch cs)"

text \<open>
  A string whose white space is single spaces only, none next to another; the flag says
  whether the code unit before the string was white space.
\<close>

fun spaced :: "bool \<Rightarrow> jsstring \<Rightarrow> bool" where
  "spaced prev [] = True"
| "spaced prev (c # cs) =
     (if isWhiteSpace c then c = SPACE \<and> \<not> prev \<and> spaced True cs else spaced False cs)"

section \<open>The lowercase conversion\<close>

subsection \<open>The table of lowercase rules\<close>

lemma allRules_iff: "allRules P t \<longleftrightarrow> (\<forall>r \<in> set_tree t. P r)"
  by (induction t) auto

lemma bounded_sound:
  "bounded lo hi t \<Longrightarrow> (s, e, st, tg) \<in> set_tree t \<Longrightarrow> lo \<le> s \<and> s \<le> e \<and> e < hi"
proof (induction t arbitrary: lo hi)
  case Leaf
  then show ?case by simp
next
  case (Node l r rt)
  obtain s0 e0 st0 tg0 where r: "r = (s0, e0, st0, tg0)" by (cases r) auto
  from Node.prems(1) have b: "lo \<le> s0" "s0 \<le> e0" "e0 < hi" "bounded lo s0 l" "bounded (Suc e0) hi rt"
    by (simp_all add: r)
  from Node.prems(2) consider "(s, e, st, tg) = r" | "(s, e, st, tg) \<in> set_tree l"
    | "(s, e, st, tg) \<in> set_tree rt" by auto
  then show ?case
  proof cases
    case 1
    then show ?thesis using b r by simp
  next
    case 2
    from Node.IH(1) [OF b(4) 2] show ?thesis using b by simp
  next
    case 3
    from Node.IH(2) [OF b(5) 3] show ?thesis using b by simp
  qed
qed

lemma clearOf_sound:
  "bounded lo hi t \<Longrightarrow> clearOf a b step t \<Longrightarrow> (s, e, st, tg) \<in> set_tree t \<Longrightarrow>
   b < s \<or> e < a \<or> (step = 2 \<and> st = 2 \<and> a mod 2 \<noteq> s mod 2)"
proof (induction t arbitrary: lo hi)
  case Leaf
  then show ?case by simp
next
  case (Node l r rt)
  obtain s0 e0 st0 tg0 where r: "r = (s0, e0, st0, tg0)" by (cases r) auto
  from Node.prems(1) have b: "lo \<le> s0" "s0 \<le> e0" "e0 < hi" "bounded lo s0 l" "bounded (Suc e0) hi rt"
    by (simp_all add: r)
  from Node.prems(3) consider (here) "(s, e, st, tg) = r" | (left) "(s, e, st, tg) \<in> set_tree l"
    | (right) "(s, e, st, tg) \<in> set_tree rt" by auto
  then show ?case
  proof cases
    case here
    then show ?thesis using Node.prems(2) r by (auto split: if_splits)
  next
    case left
    from bounded_sound [OF b(4) left] have le: "e < s0" by simp
    show ?thesis
    proof (cases "b < s0")
      case True
      with Node.prems(2) r have "clearOf a b step l" by simp
      from Node.IH(1) [OF b(4) this left] show ?thesis .
    next
      case False
      show ?thesis
      proof (cases "e0 < a")
        case True
        with le b(2) show ?thesis by simp
      next
        case False
        with \<open>\<not> b < s0\<close> Node.prems(2) r have "clearOf a b step l" by auto
        from Node.IH(1) [OF b(4) this left] show ?thesis .
      qed
    qed
  next
    case right
    from bounded_sound [OF b(5) right] have ge: "e0 < s" by simp
    show ?thesis
    proof (cases "b < s0")
      case True
      with ge b(2) show ?thesis by simp
    next
      case False
      then have "clearOf a b step rt" using Node.prems(2) r by (auto split: if_splits)
      from Node.IH(2) [OF b(5) this right] show ?thesis .
    qed
  qed
qed

lemma rule_tree_inorder: "inorder RULE_TREE = LOWERCASE_RULES"
  by (simp add: RULE_TREE_def LOWERCASE_RULES_def)

lemma rules_set: "set LOWERCASE_RULES = set_tree RULE_TREE"
  using set_inorder [of RULE_TREE] by (simp add: rule_tree_inorder)

lemma tree_bounded: "bounded 0 0x110000 RULE_TREE"
  by (simp add: RULE_TREE_def)

lemma tree_clear:
  "allRules (\<lambda>(start, stop, step, target).
      clearOf target (target + (stop - start)) step RULE_TREE) RULE_TREE"
  by (simp add: RULE_TREE_def)

lemma tree_outputs:
  "allRules (\<lambda>r. ruleScalar r \<and> ruleAvoids 0x5C r \<and> ruleAvoids 0x130 r \<and>
      ruleAvoids 0x2018 r \<and> ruleAvoids 0x2019 r \<and>
      (r = (0x41, 0x5A, 1, 0x61) \<or> 0xC0 \<le> fst r)) RULE_TREE"
  by (simp add: RULE_TREE_def ruleScalar_def ruleAvoids_def)


lemma find_SomeD: "find P xs = Some x \<Longrightarrow> P x \<and> x \<in> set xs"
  by (induction xs) (auto split: if_splits)

lemma simpleLower_cases:
  "(simpleLower c = c \<and> (\<forall>r \<in> set_tree RULE_TREE. \<not> ruleApplies r c)) \<or>
   (\<exists>r \<in> set_tree RULE_TREE. ruleApplies r c \<and> simpleLower c = ruleOutput r c)"
proof (cases "find (\<lambda>r. ruleApplies r c) LOWERCASE_RULES")
  case None
  from None [unfolded find_None_iff]
  have "\<forall>r \<in> set_tree RULE_TREE. \<not> ruleApplies r c"
    unfolding rules_set by blast
  with None show ?thesis by (simp add: simpleLower_def)
next
  case (Some r)
  from find_SomeD [OF Some] have "ruleApplies r c" "r \<in> set_tree RULE_TREE"
    by (simp_all add: rules_set)
  with Some show ?thesis by (auto simp: simpleLower_def)
qed

lemma simpleLower_none:
  "\<forall>r \<in> set_tree RULE_TREE. \<not> ruleApplies r c \<Longrightarrow> simpleLower c = c"
  using simpleLower_cases [of c] by blast

lemma even_offset: "(k::nat) mod 2 = 0 \<Longrightarrow> (t + k) mod 2 = t mod 2"
  by presburger

lemma even_difference: "(s::nat) \<le> x \<Longrightarrow> (x - s) mod 2 = 0 \<Longrightarrow> x mod 2 = s mod 2"
  by presburger

lemma rule_output_fixed:
  assumes r: "r \<in> set_tree RULE_TREE" and app: "ruleApplies r c"
  shows "simpleLower (ruleOutput r c) = ruleOutput r c"
proof (rule simpleLower_none, rule ballI)
  fix r' assume r': "r' \<in> set_tree RULE_TREE"
  obtain s e st tg where rd: "r = (s, e, st, tg)" by (cases r) auto
  obtain s' e' st' tg' where rd': "r' = (s', e', st', tg')" by (cases r') auto
  from app have c: "s \<le> c" "c \<le> e" "(c - s) mod st = 0"
    by (simp_all add: ruleApplies_def rd)
  have out: "ruleOutput r c = tg + (c - s)" by (simp add: ruleOutput_def rd)
  from tree_clear r have "clearOf tg (tg + (e - s)) st RULE_TREE"
    by (auto simp: allRules_iff rd)
  from clearOf_sound [OF tree_bounded this r' [unfolded rd']]
  consider "tg + (e - s) < s'" | "e' < tg" | "st = 2" "st' = 2" "tg mod 2 \<noteq> s' mod 2" by blast
  then show "\<not> ruleApplies r' (ruleOutput r c)"
  proof cases
    case 1
    with c show ?thesis by (simp add: ruleApplies_def rd' out)
  next
    case 2
    then show ?thesis by (simp add: ruleApplies_def rd' out)
  next
    case 3
    show ?thesis
    proof
      assume "ruleApplies r' (ruleOutput r c)"
      then have a: "s' \<le> tg + (c - s)" "(tg + (c - s) - s') mod st' = 0"
        by (simp_all add: ruleApplies_def rd' out)
      from a(2) have "(tg + (c - s) - s') mod 2 = 0" by (simp only: 3(2))
      with a(1) have "(tg + (c - s)) mod 2 = s' mod 2" by (rule even_difference)
      moreover from c(3) have "(c - s) mod 2 = 0" by (simp only: 3(1))
      then have "(tg + (c - s)) mod 2 = tg mod 2" by (rule even_offset)
      ultimately show False using 3(3) by simp
    qed
  qed
qed

lemma rule_output_props:
  assumes r: "r \<in> set_tree RULE_TREE" and app: "ruleApplies r c"
  shows "isScalar (ruleOutput r c)" and "ruleOutput r c \<noteq> 0x130" and "ruleOutput r c \<noteq> 0x5C"
    and "ruleOutput r c \<noteq> 0x2018" and "ruleOutput r c \<noteq> 0x2019"
proof -
  obtain s e st tg where rd: "r = (s, e, st, tg)" by (cases r) auto
  from tree_outputs r have p: "ruleScalar r" "ruleAvoids 0x5C r" "ruleAvoids 0x130 r"
      "ruleAvoids 0x2018 r" "ruleAvoids 0x2019 r"
    by (auto simp: allRules_iff)
  from app have c: "s \<le> c" "c \<le> e" by (simp_all add: ruleApplies_def rd)
  have out: "ruleOutput r c = tg + (c - s)" by (simp add: ruleOutput_def rd)
  from p c show "isScalar (ruleOutput r c)" and "ruleOutput r c \<noteq> 0x130"
    and "ruleOutput r c \<noteq> 0x5C" and "ruleOutput r c \<noteq> 0x2018" and "ruleOutput r c \<noteq> 0x2019"
    by (auto simp: ruleScalar_def ruleAvoids_def isScalar_def rd ruleOutput_def)
qed

lemma simpleLower_idem: "simpleLower (simpleLower c) = simpleLower c"
  using simpleLower_cases [of c] rule_output_fixed by auto

lemma first_rule: "(0x41, 0x5A, 1, 0x61) \<in> set_tree RULE_TREE"
proof -
  have "(0x41, 0x5A, 1, 0x61) \<in> set LOWERCASE_RULES" by (simp add: LOWERCASE_RULES_def)
  then show ?thesis by (simp add: rules_set)
qed

lemma simpleLower_low:
  assumes "c < 0xC0"
  shows "simpleLower c = (if 0x41 \<le> c \<and> c \<le> 0x5A then c + 0x20 else c)"
proof -
  from simpleLower_cases [of c] show ?thesis
  proof
    assume a: "simpleLower c = c \<and> (\<forall>r \<in> set_tree RULE_TREE. \<not> ruleApplies r c)"
    with first_rule have "\<not> ruleApplies (0x41, 0x5A, 1, 0x61) c" by blast
    with a show ?thesis by (simp add: ruleApplies_def)
  next
    assume "\<exists>r \<in> set_tree RULE_TREE. ruleApplies r c \<and> simpleLower c = ruleOutput r c"
    then obtain r where r: "r \<in> set_tree RULE_TREE" "ruleApplies r c"
      "simpleLower c = ruleOutput r c" by blast
    from tree_outputs r(1) have "r = (0x41, 0x5A, 1, 0x61) \<or> 0xC0 \<le> fst r"
      by (auto simp: allRules_iff)
    moreover have "fst r \<le> c" using r(2) by (cases r) (simp add: ruleApplies_def)
    ultimately have "r = (0x41, 0x5A, 1, 0x61)" using assms by auto
    with r show ?thesis by (simp add: ruleApplies_def ruleOutput_def)
  qed
qed

lemma no_rule_at: "clearOf c c 2 RULE_TREE \<Longrightarrow> simpleLower c = c"
proof (rule simpleLower_none, rule ballI)
  fix r assume c: "clearOf c c 2 RULE_TREE" and r: "r \<in> set_tree RULE_TREE"
  obtain s e st tg where rd: "r = (s, e, st, tg)" by (cases r) auto
  from clearOf_sound [OF tree_bounded c r [unfolded rd]]
  consider "c < s" | "e < c" | "st = 2" "c mod 2 \<noteq> s mod 2" by blast
  then show "\<not> ruleApplies r c"
  proof cases
    case 3
    show ?thesis
    proof
      assume "ruleApplies r c"
      then have a: "s \<le> c" "(c - s) mod st = 0" by (simp_all add: ruleApplies_def rd)
      from a(2) have "(c - s) mod 2 = 0" by (simp only: 3(1))
      with a(1) have "c mod 2 = s mod 2" by (rule even_difference)
      with 3(2) show False by simp
    qed
  qed (simp_all add: ruleApplies_def rd)
qed

lemma simpleLower_points:
  "simpleLower 0x307 = 0x307" "simpleLower 0x3C2 = 0x3C2" "simpleLower 0x3C3 = 0x3C3"
  "simpleLower 0x2018 = 0x2018" "simpleLower 0x2019 = 0x2019"
  "simpleLower 0xD801 = 0xD801" "simpleLower 0xDC00 = 0xDC00" "simpleLower 0xDC28 = 0xDC28"
  by (rule no_rule_at, simp add: RULE_TREE_def)+

lemma simpleLower_sigma: "simpleLower 0x3A3 = 0x3C3"
  by (simp add: simpleLower_def LOWERCASE_RULES_def ruleApplies_def ruleOutput_def)

lemma simpleLower_deseret: "simpleLower 0x10400 = 0x10428"
  by (simp add: simpleLower_def LOWERCASE_RULES_def ruleApplies_def ruleOutput_def)


subsection \<open>Code points and code units\<close>

lemmas surrogate_defs = isHighSurrogate_def isLowSurrogate_def isScalarUnit_def isScalar_def

lemma codePoints_plain: "\<not> isHighSurrogate u \<Longrightarrow> codePoints (u # s) = u # codePoints s"
  by (cases s) simp_all

lemma codePoints_set: "c \<in> set (codePoints s) \<Longrightarrow> c \<in> set s \<or> 0x10000 \<le> c"
  by (induction s rule: codePoints.induct) (auto simp: pairValue_def split: if_splits)

lemma encodePoint_set: "u \<in> set (encodePoint p) \<Longrightarrow> u = p \<or> 0xD800 \<le> u"
  by (auto simp: encodePoint_def split: if_splits)

lemma lowerFrom_set:
  "p \<in> set (lowerFrom b cs) \<Longrightarrow>
   p \<in> {0x3C2, 0x3C3, 0x69, 0x307} \<or> (\<exists>c \<in> set cs. p = simpleLower c)"
  by (induction cs arbitrary: b) (auto split: if_splits)

lemma encode_pair:
  assumes "isHighSurrogate u" and "isLowSurrogate v"
  shows "encodePoint (pairValue u v) = [u, v]"
proof -
  obtain a where a: "u = 0xD800 + a" "a < 0x400"
    using assms(1) by (auto simp: isHighSurrogate_def intro: that [of "u - 0xD800"])
  obtain b where b: "v = 0xDC00 + b" "b < 0x400"
    using assms(2) by (auto simp: isLowSurrogate_def intro: that [of "v - 0xDC00"])
  have "pairValue u v = 0x10000 + (a * 0x400 + b)" by (simp add: pairValue_def a b)
  moreover have "(a * 0x400 + b) div 0x400 = a" "(a * 0x400 + b) mod 0x400 = b"
    using b(2) by simp_all
  ultimately show ?thesis by (simp add: encodePoint_def a b)
qed

lemma pair_of_point:
  assumes "0x10000 \<le> c" and "c < 0x110000"
  shows "isHighSurrogate (0xD800 + (c - 0x10000) div 0x400)"
    and "isLowSurrogate (0xDC00 + (c - 0x10000) mod 0x400)"
    and "pairValue (0xD800 + (c - 0x10000) div 0x400) (0xDC00 + (c - 0x10000) mod 0x400) = c"
proof -
  have "(c - 0x10000) div 0x400 < 0x400" using assms by simp
  then show "isHighSurrogate (0xD800 + (c - 0x10000) div 0x400)"
    by (simp add: isHighSurrogate_def)
  show "isLowSurrogate (0xDC00 + (c - 0x10000) mod 0x400)"
    by (simp add: isLowSurrogate_def)
  have "(c - 0x10000) div 0x400 * 0x400 + (c - 0x10000) mod 0x400 = c - 0x10000" by simp
  with assms(1)
  show "pairValue (0xD800 + (c - 0x10000) div 0x400) (0xDC00 + (c - 0x10000) mod 0x400) = c"
    by (simp add: pairValue_def)
qed

lemma pairValue_scalar:
  "isHighSurrogate u \<Longrightarrow> isLowSurrogate v \<Longrightarrow> isScalar (pairValue u v)"
  by (auto simp: surrogate_defs pairValue_def)

subsection \<open>What the lowercase conversion can produce\<close>

lemma toLowerCase_units:
  assumes "u \<in> set (toLowerCase s)"
  shows "u \<in> set s \<or> 0xD800 \<le> u \<or> u \<in> {0x3C2, 0x3C3, 0x69, 0x307} \<or>
         (\<exists>r \<in> set_tree RULE_TREE. \<exists>c. ruleApplies r c \<and> u = ruleOutput r c)"
proof -
  from assms obtain p where p: "p \<in> set (lowerFrom [] (codePoints s))" "u \<in> set (encodePoint p)"
    by (auto simp: toLowerCase_def fromCodePoints_def)
  show ?thesis
  proof (cases "0xD800 \<le> u")
    case True
    then show ?thesis by simp
  next
    case False
    with encodePoint_set [OF p(2)] have up: "u = p" by simp
    from lowerFrom_set [OF p(1)]
    consider "p \<in> {0x3C2, 0x3C3, 0x69, 0x307}" | c where "c \<in> set (codePoints s)" "p = simpleLower c"
      by blast
    then show ?thesis
    proof cases
      case 1
      then show ?thesis using up by simp
    next
      case 2
      from simpleLower_cases [of c] show ?thesis
      proof
        assume "simpleLower c = c \<and> (\<forall>r \<in> set_tree RULE_TREE. \<not> ruleApplies r c)"
        with 2 up have "u = c" by simp
        with codePoints_set [OF 2(1)] False show ?thesis by auto
      next
        assume "\<exists>r \<in> set_tree RULE_TREE. ruleApplies r c \<and> simpleLower c = ruleOutput r c"
        with 2 up show ?thesis by auto
      qed
    qed
  qed
qed

lemma toLowerCase_avoids:
  assumes "q = 0x5C \<or> q = 0x2018 \<or> q = 0x2019" and "q \<notin> set s"
  shows "q \<notin> set (toLowerCase s)"
proof
  assume "q \<in> set (toLowerCase s)"
  from toLowerCase_units [OF this] assms
  obtain r c where "r \<in> set_tree RULE_TREE" "ruleApplies r c" "q = ruleOutput r c" by auto
  with rule_output_props [of r c] assms(1) show False by auto
qed

subsection \<open>Strings that the lowercase conversion leaves as they are\<close>

lemma scalar_unit_plain:
  "isScalarUnit u \<Longrightarrow> \<not> isHighSurrogate u \<and> \<not> isLowSurrogate u"
  by (auto simp: surrogate_defs)

lemma lowercased_plain:
  "\<not> isHighSurrogate u \<Longrightarrow>
   lowercased (u # s) \<longleftrightarrow> isScalarUnit u \<and> fixedPoint u \<and> lowercased s"
  by (cases s) simp_all

lemma fixedPoint_not_sigma: "fixedPoint c \<Longrightarrow> c \<noteq> 0x3A3"
  using simpleLower_sigma by (auto simp: fixedPoint_def)

lemma lowerFrom_fixed: "list_all fixedPoint cs \<Longrightarrow> lowerFrom b cs = cs"
proof (induction cs arbitrary: b)
  case Nil
  show ?case by simp
next
  case (Cons c cs)
  then have c: "fixedPoint c" and cs: "list_all fixedPoint cs" by simp_all
  from Cons.IH [OF cs] have ih: "lowerFrom (c # b) cs = cs" .
  from c have "c \<noteq> 0x130" "simpleLower c = c" by (simp_all add: fixedPoint_def)
  with fixedPoint_not_sigma [OF c] ih show ?case by simp
qed

lemma lowercased_points:
  "lowercased t \<Longrightarrow> fromCodePoints (codePoints t) = t \<and> list_all fixedPoint (codePoints t)"
proof (induction t rule: lowercased.induct)
  case 1
  show ?case by (simp add: fromCodePoints_def)
next
  case (2 u)
  then show ?case by (auto simp: fromCodePoints_def encodePoint_def isScalarUnit_def)
next
  case (3 u v rest)
  show ?case
  proof (cases "isHighSurrogate u")
    case True
    with "3.prems" have p: "isLowSurrogate v" "fixedPoint (pairValue u v)" "lowercased rest"
      by simp_all
    from "3.IH"(1) [OF True p(3)] True p show ?thesis
      by (simp add: fromCodePoints_def encode_pair)
  next
    case False
    with "3.prems" have p: "isScalarUnit u" "fixedPoint u" "lowercased (v # rest)" by simp_all
    from p(1) have "encodePoint u = [u]" by (auto simp: encodePoint_def isScalarUnit_def)
    with "3.IH"(2) [OF False p(3)] False p show ?thesis
      by (simp add: fromCodePoints_def)
  qed
qed

lemma toLowerCase_lowercased: "lowercased t \<Longrightarrow> toLowerCase t = t"
  using lowercased_points [of t] by (simp add: toLowerCase_def lowerFrom_fixed)

lemma wellFormed_points: "wellFormed s \<Longrightarrow> list_all isScalar (codePoints s)"
proof (induction s rule: wellFormed.induct)
  case 1
  show ?case by simp
next
  case (2 u)
  then show ?case by (auto simp: surrogate_defs)
next
  case (3 u v rest)
  show ?case
  proof (cases "isHighSurrogate u")
    case True
    with "3.prems" have p: "isLowSurrogate v" "wellFormed rest" by simp_all
    from "3.IH"(1) [OF True p(2)] True p show ?thesis by (simp add: pairValue_scalar)
  next
    case False
    with "3.prems" have p: "isScalarUnit u" "wellFormed (v # rest)" by simp_all
    from p(1) have "isScalar u" by (auto simp: surrogate_defs)
    with "3.IH"(2) [OF False p(2)] False show ?thesis by simp
  qed
qed

lemma fixed_specials:
  "isScalar 0x3C2 \<and> fixedPoint 0x3C2" "isScalar 0x3C3 \<and> fixedPoint 0x3C3"
  "isScalar 0x69 \<and> fixedPoint 0x69" "isScalar 0x307 \<and> fixedPoint 0x307"
  by (simp_all add: isScalar_def fixedPoint_def simpleLower_points simpleLower_low)

lemma simpleLower_fixed: "isScalar c \<Longrightarrow> c \<noteq> 0x130 \<Longrightarrow> isScalar (simpleLower c) \<and> fixedPoint (simpleLower c)"
proof -
  assume c: "isScalar c" "c \<noteq> 0x130"
  from simpleLower_cases [of c] show ?thesis
  proof
    assume "simpleLower c = c \<and> (\<forall>r \<in> set_tree RULE_TREE. \<not> ruleApplies r c)"
    with c show ?thesis by (simp add: fixedPoint_def)
  next
    assume "\<exists>r \<in> set_tree RULE_TREE. ruleApplies r c \<and> simpleLower c = ruleOutput r c"
    then obtain r where "r \<in> set_tree RULE_TREE" "ruleApplies r c" "simpleLower c = ruleOutput r c"
      by blast
    with rule_output_props(1,2) [of r c] rule_output_fixed [of r c] show ?thesis
      by (simp add: fixedPoint_def)
  qed
qed

lemma lowerFrom_lowercase:
  "list_all isScalar cs \<Longrightarrow> list_all (\<lambda>p. isScalar p \<and> fixedPoint p) (lowerFrom b cs)"
proof (induction cs arbitrary: b)
  case Nil
  show ?case by simp
next
  case (Cons c cs)
  then have c: "isScalar c" and rest: "list_all (\<lambda>p. isScalar p \<and> fixedPoint p) (lowerFrom (c # b) cs)"
    by simp_all
  show ?case
  proof (cases "c = 0x3A3 \<or> c = 0x130")
    case True
    with rest fixed_specials show ?thesis by auto
  next
    case False
    with simpleLower_fixed [OF c] rest show ?thesis by simp
  qed
qed

lemma fromCodePoints_lowercased:
  "list_all (\<lambda>p. isScalar p \<and> fixedPoint p) cs \<Longrightarrow> lowercased (fromCodePoints cs)"
proof (induction cs)
  case Nil
  show ?case by (simp add: fromCodePoints_def)
next
  case (Cons c cs)
  then have c: "isScalar c" "fixedPoint c" and IH: "lowercased (fromCodePoints cs)"
    by simp_all
  have split: "fromCodePoints (c # cs) = encodePoint c @ fromCodePoints cs"
    by (simp add: fromCodePoints_def)
  show ?case
  proof (cases "c < 0x10000")
    case True
    with c(1) have "isScalarUnit c" by (auto simp: surrogate_defs)
    with c(2) IH True show ?thesis
      by (simp add: split encodePoint_def lowercased_plain scalar_unit_plain)
  next
    case False
    with c(1) have r: "0x10000 \<le> c" "c < 0x110000" by (auto simp: isScalar_def)
    from pair_of_point [OF r] c(2) IH False show ?thesis
      by (simp add: split encodePoint_def)
  qed
qed

lemma toLowerCase_wellFormed: "wellFormed s \<Longrightarrow> lowercased (toLowerCase s)"
  unfolding toLowerCase_def
  by (intro fromCodePoints_lowercased lowerFrom_lowercase wellFormed_points)


lemmas lower_eval = toLowerCase_def fromCodePoints_def encodePoint_def isHighSurrogate_def
  isLowSurrogate_def pairValue_def simpleLower_low simpleLower_points simpleLower_deseret

section \<open>Alert classification by the GTFS-Realtime effect\<close>

text \<open>
  C6. \<open>mapGtfsEffect\<close> gives \<open>emergency\<close> exactly for the effect 1 (\<open>NO_SERVICE\<close>), \<open>delay\<close>
  exactly for the effects 2, 3, 4 and 6 (\<open>REDUCED_SERVICE\<close>, \<open>SIGNIFICANT_DELAYS\<close>, \<open>DETOUR\<close>,
  \<open>MODIFIED_SERVICE\<close>), and \<open>advisory\<close> for every other value, \<open>null\<close> and \<open>undefined\<close>
  included.
\<close>

theorem mapGtfsEffect_classification:
  "(mapGtfsEffect effect = emergency \<longleftrightarrow> effect = Some 1) \<and>
   (mapGtfsEffect effect = delay \<longleftrightarrow> effect \<in> {Some 2, Some 3, Some 4, Some 6}) \<and>
   (mapGtfsEffect effect = advisory \<longleftrightarrow> effect \<notin> {Some 1, Some 2, Some 3, Some 4, Some 6})"
  by (cases effect) (auto simp: mapGtfsEffect_def)

section \<open>The JSON polling adapter\<close>

text \<open>
  C8. \<open>fetchWMATAIncidents\<close> fails with the upstream error exactly when there is a response
  whose status is outside 200--299; and when the status is inside and the parsed body has
  no property \<open>ElevatorIncidents\<close>, the result is the empty list of records.
\<close>

theorem fetchWMATAIncidents_upstream_error:
  "((\<exists>code. fetchWMATAIncidents r = Inl (UpstreamError code)) \<longleftrightarrow>
      (\<exists>status body. r = Response status body \<and> \<not> response_ok status)) \<and>
   (response_ok status \<longrightarrow>
      fetchWMATAIncidents (Response status (Json (JsonValue Missing))) = Inr [])"
  by (auto simp: fetchWMATAIncidents_def
           split: fetch_outcome.splits response_body.splits json_value.splits
                  incidents_field.splits)

theorem fetchWMATAIncidents_upstream_error_witness:
  "response_ok 200 \<and> fetchWMATAIncidents (Response 200 (Json (JsonValue Missing))) = Inr [] \<and>
   fetchWMATAIncidents (Response 503 NotJson) = Inl (UpstreamError 503)"
  using fetchWMATAIncidents_upstream_error [of "Response 503 NotJson" 200]
  by (simp add: response_ok_def fetchWMATAIncidents_def)

section \<open>The cache of the aggregator\<close>

lemma getIncidents_hit:
  "sid \<in> set supportedSystems \<Longrightarrow> freshEntry st nowCheck sid = Some cached \<Longrightarrow>
   getIncidents env nowCheck nowStore sid st = (Returned (Some (data cached)), st)"
  by (simp add: getIncidents_def)

lemma freshEntry_after_store:
  "now - t < CACHE_TTL \<Longrightarrow>
   freshEntry (st\<lparr>incidentCache := (incidentCache st)(sid \<mapsto> \<lparr>data = d, cachedAt = t\<rparr>)\<rparr>) now sid
     = Some \<lparr>data = d, cachedAt = t\<rparr>"
  by (simp add: freshEntry_def)

text \<open>
  C9. For a supported system with a cache entry younger than five minutes, \<open>getIncidents\<close>
  returns the cached data and leaves the state as it is: the cache is not touched and no
  pipeline is run. Hence a call that follows, within five minutes of the store, a call that
  fetched data returns the same data, whatever the network would give, and fetches nothing.
\<close>

theorem getIncidents_cache_hit:
  "(sid \<in> set supportedSystems \<and> incidentCache st sid = Some cached \<and>
    nowCheck - cachedAt cached < CACHE_TTL \<longrightarrow>
      getIncidents env nowCheck nowStore sid st = (Returned (Some (data cached)), st)) \<and>
   (sid \<in> set supportedSystems \<and> freshEntry st t0 sid = None \<and>
    runPipeline env sid = Returned (Some d) \<and> t2 - t1 < CACHE_TTL \<longrightarrow>
      (let st1 = snd (getIncidents env t0 t1 sid st)
       in getIncidents env2 t2 t3 sid st1 = (Returned (Some d), st1)))"
proof (intro conjI impI)
  assume "sid \<in> set supportedSystems \<and> incidentCache st sid = Some cached \<and>
    nowCheck - cachedAt cached < CACHE_TTL"
  then show "getIncidents env nowCheck nowStore sid st = (Returned (Some (data cached)), st)"
    by (simp add: getIncidents_hit freshEntry_def)
next
  assume a: "sid \<in> set supportedSystems \<and> freshEntry st t0 sid = None \<and>
    runPipeline env sid = Returned (Some d) \<and> t2 - t1 < CACHE_TTL"
  define st0 where "st0 = st\<lparr>fetchLog := fetchLog st @ [sid]\<rparr>"
  have s: "snd (getIncidents env t0 t1 sid st) =
        st0\<lparr>incidentCache := (incidentCache st0)(sid \<mapsto> \<lparr>data = d, cachedAt = t1\<rparr>)\<rparr>"
    using a by (simp add: getIncidents_def st0_def)
  have "freshEntry (snd (getIncidents env t0 t1 sid st)) t2 sid = Some \<lparr>data = d, cachedAt = t1\<rparr>"
    unfolding s using a by (intro freshEntry_after_store) simp
  with a show "let st1 = snd (getIncidents env t0 t1 sid st)
       in getIncidents env2 t2 t3 sid st1 = (Returned (Some d), st1)"
    by (simp add: Let_def getIncidents_hit)
qed

theorem getIncidents_cache_hit_witness:
  "(let entry = \<lparr>data = processIncidents (js ''2024-01-01T00:00:00.000Z'') [], cachedAt = 1000\<rparr>;
        st = \<lparr>incidentCache = [js ''wmata'' \<mapsto> entry], fetchLog = []\<rparr>;
        d = processIncidents (js ''2024-01-01T00:06:40.000Z'') [];
        env = \<lparr>fetchBartIncidents = Threw, fetchWmataIncidents = Returned (Some d),
               fetchSoundTransitIncidents = Threw, fetchNycSubwayIncidents = Threw,
               fetchBaltimoreMetroIncidents = Threw, fetchBaltimoreLightRailIncidents = Threw,
               fetchTokyoMetroIncidents = Threw\<rparr>;
        env2 = \<lparr>fetchBartIncidents = Threw, fetchWmataIncidents = Threw,
               fetchSoundTransitIncidents = Threw, fetchNycSubwayIncidents = Threw,
               fetchBaltimoreMetroIncidents = Threw, fetchBaltimoreLightRailIncidents = Threw,
               fetchTokyoMetroIncidents = Threw\<rparr>;
        st1 = snd (getIncidents env 400000 400010 (js ''wmata'') st)
    in js ''wmata'' \<in> set supportedSystems \<and> incidentCache st (js ''wmata'') = Some entry \<and>
       300999 - cachedAt entry < CACHE_TTL \<and>
       getIncidents env 300999 301000 (js ''wmata'') st = (Returned (Some (data entry)), st) \<and>
       freshEntry st 400000 (js ''wmata'') = None \<and>
       runPipeline env (js ''wmata'') = Returned (Some d) \<and> 700009 - 400010 < CACHE_TTL \<and>
       getIncidents env2 700009 700010 (js ''wmata'') st1 = (Returned (Some d), st1))"
  using getIncidents_cache_hit
    [where sid = "js ''wmata''"
       and st = "\<lparr>incidentCache = [js ''wmata'' \<mapsto>
            \<lparr>data = processIncidents (js ''2024-01-01T00:00:00.000Z'') [], cachedAt = 1000\<rparr>],
          fetchLog = []\<rparr>"
       and cached = "\<lparr>data = processIncidents (js ''2024-01-01T00:00:00.000Z'') [], cachedAt = 1000\<rparr>"
       and nowCheck = 300999 and nowStore = 301000
       and env = "\<lparr>fetchBartIncidents = Threw,
          fetchWmataIncidents = Returned (Some (processIncidents (js ''2024-01-01T00:06:40.000Z'') [])),
          fetchSoundTransitIncidents = Threw, fetchNycSubwayIncidents = Threw,
          fetchBaltimoreMetroIncidents = Threw, fetchBaltimoreLightRailIncidents = Threw,
          fetchTokyoMetroIncidents = Threw\<rparr>"
       and d = "processIncidents (js ''2024-01-01T00:06:40.000Z'') []"
       and ?t0.0 = 400000 and ?t1.0 = 400010 and ?t2.0 = 700009 and ?t3.0 = 700010
       and ?env2.0 = "\<lparr>fetchBartIncidents = Threw, fetchWmataIncidents = Threw,
          fetchSoundTransitIncidents = Threw, fetchNycSubwayIncidents = Threw,
          fetchBaltimoreMetroIncidents = Threw, fetchBaltimoreLightRailIncidents = Threw,
          fetchTokyoMetroIncidents = Threw\<rparr>"]
  by (simp add: Let_def CACHE_TTL_def supportedSystems_def js_def freshEntry_def runPipeline_def)

text \<open>
  C10. When the pipeline of a system gives no data, \<open>getIncidents\<close> leaves the cache as it
  was, for every system: nothing is added, removed or overwritten.
\<close>

theorem getIncidents_failed_refresh_keeps_cache:
  assumes "\<forall>d. runPipeline env sid \<noteq> Returned (Some d)"
  shows "incidentCache (snd (getIncidents env nowCheck nowStore sid st)) = incidentCache st"
  using assms
  by (auto simp: getIncidents_def Let_def split: option.splits outcome.splits)

theorem getIncidents_failed_refresh_keeps_cache_witness:
  "(let entry = \<lparr>data = processIncidents (js ''2024-01-01T00:00:00.000Z'') [], cachedAt = 0\<rparr>;
        st = \<lparr>incidentCache = [js ''bart'' \<mapsto> entry], fetchLog = []\<rparr>;
        env = \<lparr>fetchBartIncidents = Returned None, fetchWmataIncidents = Returned None,
               fetchSoundTransitIncidents = Returned None, fetchNycSubwayIncidents = Returned None,
               fetchBaltimoreMetroIncidents = Returned None,
               fetchBaltimoreLightRailIncidents = Returned None,
               fetchTokyoMetroIncidents = Returned None\<rparr>
    in (\<forall>d. runPipeline env (js ''bart'') \<noteq> Returned (Some d)) \<and>
       freshEntry st 900000 (js ''bart'') = None \<and>
       incidentCache (snd (getIncidents env 900000 900001 (js ''bart'') st)) = incidentCache st)"
  using getIncidents_failed_refresh_keeps_cache
    [of "\<lparr>fetchBartIncidents = Returned None, fetchWmataIncidents = Returned None,
          fetchSoundTransitIncidents = Returned None, fetchNycSubwayIncidents = Returned None,
          fetchBaltimoreMetroIncidents = Returned None,
          fetchBaltimoreLightRailIncidents = Returned None,
          fetchTokyoMetroIncidents = Returned None\<rparr>"
        "js ''bart''" 900000 900001
        "\<lparr>incidentCache = [js ''bart'' \<mapsto>
            \<lparr>data = processIncidents (js ''2024-01-01T00:00:00.000Z'') [], cachedAt = 0\<rparr>],
          fetchLog = []\<rparr>"]
  by (simp add: Let_def runPipeline_def freshEntry_def CACHE_TTL_def)

section \<open>A failed refresh\<close>

text \<open>
  C1, as stated, fails: with an entry older than five minutes in the cache and a pipeline
  that returns \<open>null\<close>, \<open>getIncidents\<close> returns \<open>null\<close> and not the cached data.
\<close>

theorem getIncidents_stale_entry_not_returned:
  "(let entry = \<lparr>data = processIncidents (js ''2024-01-01T00:00:00.000Z'') [], cachedAt = 0\<rparr>;
        st = \<lparr>incidentCache = [js ''sound-transit'' \<mapsto> entry], fetchLog = []\<rparr>;
        env = \<lparr>fetchBartIncidents = Returned None, fetchWmataIncidents = Returned None,
               fetchSoundTransitIncidents = Returned None, fetchNycSubwayIncidents = Returned None,
               fetchBaltimoreMetroIncidents = Returned None,
               fetchBaltimoreLightRailIncidents = Returned None,
               fetchTokyoMetroIncidents = Returned None\<rparr>
    in js ''sound-transit'' \<in> set supportedSystems \<and>
       incidentCache st (js ''sound-transit'') = Some entry \<and>
       runPipeline env (js ''sound-transit'') = Returned None \<and>
       fst (getIncidents env 300000 300000 (js ''sound-transit'') st) = Returned None \<and>
       fst (getIncidents env 300000 300000 (js ''sound-transit'') st) \<noteq> Returned (Some (data entry)))"
  by (simp add: Let_def getIncidents_def freshEntry_def CACHE_TTL_def runPipeline_def
        supportedSystems_def js_def)

text \<open>
  C1, amended. For a supported system without a cache entry younger than five minutes,
  when the pipeline returns \<open>null\<close>, \<open>getIncidents\<close> returns \<open>null\<close> and does not throw,
  whether or not an older entry is in the cache.
\<close>

theorem getIncidents_returns_null_on_failure:
  assumes "sid \<in> set supportedSystems" and "freshEntry st nowCheck sid = None"
    and "runPipeline env sid = Returned None"
  shows "fst (getIncidents env nowCheck nowStore sid st) = Returned None"
  using assms by (simp add: getIncidents_def Let_def)

theorem getIncidents_returns_null_on_failure_witness:
  "(let entry = \<lparr>data = processIncidents (js ''2024-01-01T00:00:00.000Z'') [], cachedAt = 0\<rparr>;
        st = \<lparr>incidentCache = [js ''tokyo-metro'' \<mapsto> entry], fetchLog = []\<rparr>;
        env = \<lparr>fetchBartIncidents = Returned None, fetchWmataIncidents = Returned None,
               fetchSoundTransitIncidents = Returned None, fetchNycSubwayIncidents = Returned None,
               fetchBaltimoreMetroIncidents = Returned None,
               fetchBaltimoreLightRailIncidents = Returned None,
               fetchTokyoMetroIncidents = Returned None\<rparr>
    in js ''tokyo-metro'' \<in> set supportedSystems \<and> freshEntry st 300000 (js ''tokyo-metro'') = None \<and>
       runPipeline env (js ''tokyo-metro'') = Returned None \<and>
       fst (getIncidents env 300000 300005 (js ''tokyo-metro'') st) = Returned None)"
  using getIncidents_returns_null_on_failure
    [of "js ''tokyo-metro''"
        "\<lparr>incidentCache = [js ''tokyo-metro'' \<mapsto>
            \<lparr>data = processIncidents (js ''2024-01-01T00:00:00.000Z'') [], cachedAt = 0\<rparr>],
          fetchLog = []\<rparr>"
        300000
        "\<lparr>fetchBartIncidents = Returned None, fetchWmataIncidents = Returned None,
          fetchSoundTransitIncidents = Returned None, fetchNycSubwayIncidents = Returned None,
          fetchBaltimoreMetroIncidents = Returned None,
          fetchBaltimoreLightRailIncidents = Returned None,
          fetchTokyoMetroIncidents = Returned None\<rparr>"
        300005]
  by (simp add: Let_def supportedSystems_def runPipeline_def freshEntry_def CACHE_TTL_def js_def)

section \<open>Equipment outages from alert text\<close>

lemma map_of_pushOutage:
  "map_of (pushOutage obj k x) k' =
     (if k' = k then Some (existingOutages obj k @ [x]) else map_of obj k')"
  by (simp add: pushOutage_def existingOutages_def update_conv' split: option.splits)

lemma existing_pushOutage:
  "existingOutages (pushOutage obj k x) k' =
     (if k' = k then existingOutages obj k @ [x] else existingOutages obj k')"
  by (simp add: existingOutages_def map_of_pushOutage)

lemma fileOutages_result:
  "distinct stations \<Longrightarrow>
   \<exists>obj'. fileOutages elev esc e s stations (n, m, obj) =
      (n + (if elev then length stations else 0), m + (if esc then length stations else 0), obj') \<and>
     (\<forall>k. map_of obj' k =
        (if k \<in> set stations
         then Some (existingOutages obj k @ (if elev then [e] else []) @ (if esc then [s] else []))
         else map_of obj k))"
proof (induction stations arbitrary: n m obj)
  case Nil
  then show ?case by simp
next
  case (Cons a rest)
  define obj0 where "obj0 = (if map_of obj a = None then AList.update a [] obj else obj)"
  define obj1 where "obj1 = (if elev then pushOutage obj0 a e else obj0)"
  define obj2 where "obj2 = (if esc then pushOutage obj1 a s else obj1)"
  have m0: "map_of obj0 k = (if k = a then Some (existingOutages obj a) else map_of obj k)" for k
    by (auto simp: obj0_def update_conv' existingOutages_def)
  have m1: "map_of obj1 k = (if k = a then Some (existingOutages obj a @ (if elev then [e] else []))
       else map_of obj k)" for k
    by (simp add: obj1_def map_of_pushOutage m0 existingOutages_def)
  have m2: "map_of obj2 k = (if k = a then Some (existingOutages obj a @ (if elev then [e] else []) @ (if esc then [s] else []))
       else map_of obj k)" for k
    by (simp add: obj2_def map_of_pushOutage m1 existingOutages_def)
  have step: "fileOutages elev esc e s (a # rest) (n, m, obj) =
     fileOutages elev esc e s rest ((if elev then n + 1 else n), (if esc then m + 1 else m), obj2)"
    by (simp add: obj0_def obj1_def obj2_def Let_def)
  from Cons.prems have d: "distinct rest" and na: "a \<notin> set rest" by simp_all
  from Cons.IH [OF d, of "if elev then n + 1 else n" "if esc then m + 1 else m" obj2]
  obtain obj' where r: "fileOutages elev esc e s rest ((if elev then n + 1 else n), (if esc then m + 1 else m), obj2) =
      ((if elev then n + 1 else n) + (if elev then length rest else 0),
       (if esc then m + 1 else m) + (if esc then length rest else 0), obj')"
    and mo: "\<And>k. map_of obj' k =
        (if k \<in> set rest
         then Some (existingOutages obj2 k @ (if elev then [e] else []) @ (if esc then [s] else []))
         else map_of obj2 k)" by blast
  have e2: "existingOutages obj2 k = existingOutages obj k" if "k \<noteq> a" for k
    using that by (simp add: existingOutages_def m2)
  have "\<forall>k. map_of obj' k =
        (if k \<in> set (a # rest)
         then Some (existingOutages obj k @ (if elev then [e] else []) @ (if esc then [s] else []))
         else map_of obj k)"
  proof
    fix k show "map_of obj' k =
        (if k \<in> set (a # rest)
         then Some (existingOutages obj k @ (if elev then [e] else []) @ (if esc then [s] else []))
         else map_of obj k)"
    proof (cases "k = a")
      case True
      then show ?thesis using na by (simp add: mo m2)
    next
      case False
      then show ?thesis by (simp add: mo m2 e2)
    qed
  qed
  moreover have "fileOutages elev esc e s (a # rest) (n, m, obj) =
      (n + (if elev then length (a # rest) else 0), m + (if esc then length (a # rest) else 0), obj')"
    unfolding step r by simp
  ultimately show ?case by blast
qed

text \<open>
  C7. When the text carries an equipment keyword with a disruption keyword and the list of
  affected stations is not empty (and names no station twice), \<open>detectEquipmentOutages\<close>
  appends to every affected station one entry for each equipment keyword present, the
  elevator entry before the escalator entry, leaves every other station as it was, and
  counts one elevator (escalator) outage per station when the elevator (escalator)
  keyword is present. The witness is the alert "Elevator out of service at Main St" at the
  station \<open>main-st\<close>: one elevator entry, no escalator entry.
\<close>

theorem detectEquipmentOutages_one_per_keyword:
  assumes "hasElevatorOutage fullText \<or> hasEscalatorOutage fullText"
    and "stations \<noteq> []" and "distinct stations"
  shows "\<exists>obj'. detectEquipmentOutages fullText stations obj headerText posted expires =
      ((if hasElevatorOutage fullText then length stations else 0),
       (if hasEscalatorOutage fullText then length stations else 0), obj') \<and>
     (\<forall>k. map_of obj' k =
        (if k \<in> set stations
         then Some (existingOutages obj k @
                (if hasElevatorOutage fullText then [elevatorEntry headerText posted expires] else []) @
                (if hasEscalatorOutage fullText then [escalatorEntry headerText posted expires] else []))
         else map_of obj k))"
  using assms fileOutages_result [of stations "hasElevatorOutage fullText" "hasEscalatorOutage fullText"
      "elevatorEntry headerText posted expires" "escalatorEntry headerText posted expires" 0 0 obj]
  by (simp add: detectEquipmentOutages_def)

theorem detectEquipmentOutages_one_per_keyword_witness:
  "hasElevatorOutage (js ''Elevator out of service at Main St'') \<and>
   \<not> hasEscalatorOutage (js ''Elevator out of service at Main St'') \<and>
   [js ''main-st''] \<noteq> [] \<and> distinct [js ''main-st''] \<and>
   detectEquipmentOutages (js ''Elevator out of service at Main St'') [js ''main-st''] []
       (js ''Elevator out of service at Main St'') (js ''2024-01-01T00:00:00.000Z'') None =
     (1, 0, [(js ''main-st'',
              [elevatorEntry (js ''Elevator out of service at Main St'')
                 (js ''2024-01-01T00:00:00.000Z'') None])]) \<and>
   unitType (elevatorEntry (js ''Elevator out of service at Main St'')
                 (js ''2024-01-01T00:00:00.000Z'') None) = js ''elevator''"
  using detectEquipmentOutages_one_per_keyword
    [of "js ''Elevator out of service at Main St''" "[js ''main-st'']" "[]"
        "js ''Elevator out of service at Main St''" "js ''2024-01-01T00:00:00.000Z''" None]
  by (simp add: hasElevatorOutage_def hasEscalatorOutage_def hasDisruptionKeyword_def
        lower_eval js_def detectEquipmentOutages_def pushOutage_def elevatorEntry_def)

section \<open>The summary of the WMATA worker\<close>

lemma keys_pushOutage:
  "distinct (map fst obj) \<Longrightarrow> distinct (map fst (pushOutage obj k x))"
  by (simp add: pushOutage_def distinct_update split: option.splits)

lemma length_concat_update:
  "map_of obj k = Some xs \<Longrightarrow>
   length (concat (map snd (AList.update k (xs @ [x]) obj))) = Suc (length (concat (map snd obj)))"
  by (induction obj) (auto split: if_splits)

lemma length_concat_update_new:
  "map_of obj k = None \<Longrightarrow>
   length (concat (map snd (AList.update k [x] obj))) = Suc (length (concat (map snd obj)))"
  by (induction obj) (auto split: if_splits)

lemma length_concat_pushOutage:
  "length (concat (map snd (pushOutage obj k x))) = Suc (length (concat (map snd obj)))"
  by (simp add: pushOutage_def length_concat_update length_concat_update_new split: option.splits)

lemma groupByStation_keys:
  "distinct (map fst obj) \<Longrightarrow> distinct (map fst (groupByStation incidents obj))"
  by (induction incidents arbitrary: obj) (auto simp: keys_pushOutage split: option.splits)

lemma groupByStation_size:
  "length (concat (map snd (groupByStation incidents obj))) =
     length (concat (map snd obj)) +
     length (filter (\<lambda>i. STATION_CODE_MAP (StationCode i) \<noteq> None) incidents)"
  by (induction incidents arbitrary: obj) (auto simp: length_concat_pushOutage split: option.splits)

lemma countUnits_foldl:
  "foldl (\<lambda>(elevators, escalators) u.
              if unitType u = js ''elevator'' then (elevators + 1, escalators)
              else (elevators, escalators + 1)) (a, b) us = (a', b') \<Longrightarrow> a' + b' = a + b + length us"
  by (induction us arbitrary: a b) (auto split: if_splits)

lemma countUnits_sum:
  "fst (countUnits obj) + snd (countUnits obj) = length (concat (map snd obj))"
  using countUnits_foldl [of 0 0 "concat (map snd obj)" "fst (countUnits obj)" "snd (countUnits obj)"]
  by (simp add: countUnits_def objectValues_def)

lemma processIncidents_counts:
  "elevatorOutages (summary (processIncidents now incidents)) +
   escalatorOutages (summary (processIncidents now incidents)) =
     length (filter (\<lambda>i. STATION_CODE_MAP (StationCode i) \<noteq> None) incidents)"
  by (simp add: processIncidents_def Let_def countUnits_sum groupByStation_size)

lemma processIncidents_stations:
  "stationsAffected (summary (processIncidents now incidents)) =
     card (set (objectKeys (outagesByStation (processIncidents now incidents))))"
proof -
  have "distinct (map fst (groupByStation incidents []))"
    by (simp add: groupByStation_keys)
  from distinct_card [OF this] show ?thesis
    by (simp add: processIncidents_def Let_def objectKeys_def)
qed


text \<open>
  C2 fails on the WMATA worker. \<open>processIncidents\<close> sets \<open>totalOutages\<close> to the number of
  incidents received, and counts elevators and escalators over the outages it filed, which
  leaves out every incident whose station code is not in \<open>STATION_CODE_MAP\<close>. The code
  \<open>C11\<close> is not in the table: for one elevator incident at \<open>C11\<close> the total is 1, the two
  counters add up to 0, and no station is affected.
\<close>

theorem processIncidents_total_counts_unmapped:
  "(let incident = \<lparr>UnitName = js ''C11X01'', UnitType = js ''ELEVATOR'', StationCode = js ''C11'',
          StationName = js ''Potomac Yard'',
          LocationDescription = js ''Elevator between mezzanine and platform'',
          SymptomDescription = js ''Service Call'', DateOutOfServ = js ''2024-01-01T08:00:00'',
          DateUpdated = js ''2024-01-01T09:00:00'', EstimatedReturnToService = None\<rparr>;
        d = processIncidents (js ''2024-01-01T10:00:00.000Z'') [incident]
    in STATION_CODE_MAP (StationCode incident) = None \<and>
       totalOutages (summary d) = 1 \<and>
       elevatorOutages (summary d) + escalatorOutages (summary d) = 0 \<and>
       stationsAffected (summary d) = 0 \<and> outagesByStation d = [])"
  by (simp add: Let_def processIncidents_def countUnits_def objectValues_def objectKeys_def
        STATION_CODE_MAP_def js_def)

section \<open>Disambiguation by line overlap\<close>

lemma shuttle_fold_ge:
  "a \<le> foldl (\<lambda>sc m. if m \<in> set stationLines then sc + 1 else sc) (a::int) mapped"
proof (induction mapped arbitrary: a)
  case Nil
  show ?case by simp
next
  case (Cons m ms)
  have "a \<le> (if m \<in> set stationLines then a + 1 else a)" by simp
  also have "\<dots> \<le> foldl (\<lambda>sc m. if m \<in> set stationLines then sc + 1 else sc)
                     (if m \<in> set stationLines then a + 1 else a) ms"
    by (rule Cons.IH)
  finally show ?case by simp
qed

lemma lineOverlap_fold_ge:
  "set routes \<subseteq> set stationLines \<Longrightarrow>
   a + int (length routes) \<le>
     foldl (\<lambda>score route.
              (let score1 = (if route \<in> set stationLines then score + 1 else score)
               in case SHUTTLE_ROUTE_MAP route of
                    None \<Rightarrow> score1
                  | Some mapped \<Rightarrow>
                      foldl (\<lambda>sc m. if m \<in> set stationLines then sc + 1 else sc) score1 mapped))
       a routes"
proof (induction routes arbitrary: a)
  case Nil
  show ?case by simp
next
  case (Cons r rs)
  let ?step = "\<lambda>score route.
              (let score1 = (if route \<in> set stationLines then score + 1 else score)
               in case SHUTTLE_ROUTE_MAP route of
                    None \<Rightarrow> score1
                  | Some mapped \<Rightarrow>
                      foldl (\<lambda>sc m. if m \<in> set stationLines then sc + 1 else sc) score1 mapped)"
  from Cons.prems have r: "r \<in> set stationLines" and rs: "set rs \<subseteq> set stationLines" by simp_all
  have "a + 1 \<le> ?step a r"
    using r shuttle_fold_ge [of "a + 1" stationLines] by (simp add: Let_def split: option.splits)
  then have "a + int (length (r # rs)) \<le> ?step a r + int (length rs)" by simp
  also have "\<dots> \<le> foldl ?step (?step a r) rs" by (rule Cons.IH [OF rs])
  finally show ?case by simp
qed

lemma lineOverlap_full:
  "set routes \<subseteq> set stationLines \<Longrightarrow> int (length routes) \<le> lineOverlap routes stationLines"
  using lineOverlap_fold_ge [of routes stationLines 0] by (simp add: lineOverlap_def)

lemma bestStation_margin:
  assumes "2 \<le> lineOverlap (daytimeRoutes row) (lines c1)"
    and "lineOverlap (daytimeRoutes row) (lines c2) = 0"
  shows "bestStation row [c1, c2] = Matched c1" and "bestStation row [c2, c1] = Matched c1"
  using assms by (simp_all add: bestStation_def scoreCandidate_def Let_def sortByDist_def)

lemma entryOverlap_pos:
  "routes \<noteq> [] \<Longrightarrow> set routes \<subseteq> set (entry_lines e) \<Longrightarrow> 0 < entryOverlap routes e"
proof -
  assume a: "routes \<noteq> []" "set routes \<subseteq> set (entry_lines e)"
  then obtain r where "r \<in> set routes" by (cases routes) auto
  with a have "r \<in> set (filter (\<lambda>l. l \<in> set routes) (entry_lines e))" by auto
  then show ?thesis unfolding entryOverlap_def by (metis length_pos_if_in_set)
qed

lemma entryOverlap_zero:
  "set routes \<inter> set (entry_lines e) = {} \<Longrightarrow> entryOverlap routes e = 0"
  by (auto simp: entryOverlap_def filter_empty_conv)

lemma haversineMeters_same: "haversineMeters 0 0 0 0 = 0"
  by (simp add: haversineMeters_def)

lemma haversineMeters_antipode: "haversineMeters 0 180 0 0 = 6371000 * pi"
  by (simp add: haversineMeters_def Let_def)

text \<open>
  C3, as stated, fails in the batch tool. The row carries the one route \<open>R\<close>; the first
  candidate serves \<open>R\<close> (overlap 1) and lies at the antipode of the row; the second serves
  only \<open>Q\<close> (overlap 0) and lies where the row is. Both are within the margin of 1 of the
  best overlap, the sort by distance puts the second first, and the second is chosen.
\<close>

theorem bestStation_nearer_within_margin:
  "(let row = \<lparr>constituentStationName = js ''86 St'', daytimeRoutes = [js ''R''],
               row_lat = 0, row_lng = 0\<rparr>;
        c1 = \<lparr>station_id = js ''86-st-r'', station_name = js ''86 St'', lines = [js ''R''],
              coordinates = Some \<lparr>lat = 0, lng = 180\<rparr>\<rparr>;
        c2 = \<lparr>station_id = js ''86-st-q'', station_name = js ''86 St'', lines = [js ''Q''],
              coordinates = Some \<lparr>lat = 0, lng = 0\<rparr>\<rparr>
    in set (daytimeRoutes row) \<subseteq> set (lines c1) \<and>
       set (daytimeRoutes row) \<inter> set (lines c2) = {} \<and>
       lineOverlap (daytimeRoutes row) (lines c1) = 1 \<and>
       lineOverlap (daytimeRoutes row) (lines c2) = 0 \<and>
       bestStation row [c1, c2] = Matched c2 \<and> c2 \<noteq> c1)"
  by (simp add: Let_def bestStation_def scoreCandidate_def sortByDist_def lineOverlap_def
        SHUTTLE_ROUTE_MAP_def js_def haversineMeters_same haversineMeters_antipode)

text \<open>
  C3, amended. Of two candidates, in either order and whatever their coordinates: the batch
  tool chooses the candidate whose lines contain every route of the row when the row
  carries at least two routes and the other candidate has the overlap score 0; the live
  resolver, which reads no coordinates, chooses the candidate whose lines contain every
  line of the outage when the outage carries at least one line and the other candidate
  serves none of them.
\<close>

theorem full_overlap_candidate_selected:
  "(set (daytimeRoutes row) \<subseteq> set (lines c1) \<and> 2 \<le> length (daytimeRoutes row) \<and>
    lineOverlap (daytimeRoutes row) (lines c2) = 0 \<longrightarrow>
      bestStation row [c1, c2] = Matched c1 \<and> bestStation row [c2, c1] = Matched c1) \<and>
   (trainno \<noteq> [] \<and> outageLines trainno \<noteq> [] \<and>
    set (outageLines trainno) \<subseteq> set (entry_lines e1) \<and>
    set (outageLines trainno) \<inter> set (entry_lines e2) = {} \<longrightarrow>
      matchedStation trainno [e1, e2] = Some e1 \<and> matchedStation trainno [e2, e1] = Some e1)"
proof (intro conjI impI)
  assume a: "set (daytimeRoutes row) \<subseteq> set (lines c1) \<and> 2 \<le> length (daytimeRoutes row) \<and>
    lineOverlap (daytimeRoutes row) (lines c2) = 0"
  then have "2 \<le> lineOverlap (daytimeRoutes row) (lines c1)"
    using lineOverlap_full [of "daytimeRoutes row" "lines c1"] by simp
  with a show "bestStation row [c1, c2] = Matched c1" "bestStation row [c2, c1] = Matched c1"
    by (simp_all add: bestStation_margin)
next
  assume a: "trainno \<noteq> [] \<and> outageLines trainno \<noteq> [] \<and>
    set (outageLines trainno) \<subseteq> set (entry_lines e1) \<and>
    set (outageLines trainno) \<inter> set (entry_lines e2) = {}"
  then have p: "0 < entryOverlap (outageLines trainno) e1"
    and z: "entryOverlap (outageLines trainno) e2 = 0"
    by (simp_all add: entryOverlap_pos entryOverlap_zero)
  from a p z show "matchedStation trainno [e1, e2] = Some e1" "matchedStation trainno [e2, e1] = Some e1"
    by (simp_all add: matchedStation_def Let_def)
qed

theorem full_overlap_candidate_selected_witness:
  "(let row = \<lparr>constituentStationName = js ''86 St'', daytimeRoutes = [js ''N'', js ''R''],
               row_lat = 0, row_lng = 0\<rparr>;
        c1 = \<lparr>station_id = js ''86-st-r'', station_name = js ''86 St'',
              lines = [js ''N'', js ''R'', js ''W''],
              coordinates = Some \<lparr>lat = 0, lng = 180\<rparr>\<rparr>;
        c2 = \<lparr>station_id = js ''86-st-q'', station_name = js ''86 St'', lines = [js ''Q''],
              coordinates = Some \<lparr>lat = 0, lng = 0\<rparr>\<rparr>;
        e1 = \<lparr>entry_id = js ''86-st-r'', entry_lines = [js ''N'', js ''R'', js ''W'']\<rparr>;
        e2 = \<lparr>entry_id = js ''86-st-q'', entry_lines = [js ''Q'']\<rparr>
    in set (daytimeRoutes row) \<subseteq> set (lines c1) \<and> 2 \<le> length (daytimeRoutes row) \<and>
       lineOverlap (daytimeRoutes row) (lines c2) = 0 \<and>
       bestStation row [c1, c2] = Matched c1 \<and> bestStation row [c2, c1] = Matched c1 \<and>
       js ''N/R'' \<noteq> [] \<and> outageLines (js ''N/R'') = [js ''N'', js ''R''] \<and>
       set (outageLines (js ''N/R'')) \<subseteq> set (entry_lines e1) \<and>
       set (outageLines (js ''N/R'')) \<inter> set (entry_lines e2) = {} \<and>
       matchedStation (js ''N/R'') [e1, e2] = Some e1 \<and>
       matchedStation (js ''N/R'') [e2, e1] = Some e1)"
proof -
  have lines: "outageLines (js ''N/R'') = [js ''N'', js ''R'']"
    by (simp add: outageLines_def List.map_filter_simps mapNycRouteId_def NYC_SUBWAY_ROUTE_MAP_def
          trim_def isWhiteSpace_def SLASH_def js_def)
  have zero: "lineOverlap [js ''N'', js ''R''] [js ''Q''] = 0"
    by (simp add: lineOverlap_def SHUTTLE_ROUTE_MAP_def js_def)
  show ?thesis
    using full_overlap_candidate_selected
      [where row = "\<lparr>constituentStationName = js ''86 St'', daytimeRoutes = [js ''N'', js ''R''],
               row_lat = 0, row_lng = 0\<rparr>"
         and ?c1.0 = "\<lparr>station_id = js ''86-st-r'', station_name = js ''86 St'',
              lines = [js ''N'', js ''R'', js ''W''],
              coordinates = Some \<lparr>lat = 0, lng = 180\<rparr>\<rparr>"
         and ?c2.0 = "\<lparr>station_id = js ''86-st-q'', station_name = js ''86 St'', lines = [js ''Q''],
              coordinates = Some \<lparr>lat = 0, lng = 0\<rparr>\<rparr>"
         and trainno = "js ''N/R''"
         and ?e1.0 = "\<lparr>entry_id = js ''86-st-r'', entry_lines = [js ''N'', js ''R'', js ''W'']\<rparr>"
         and ?e2.0 = "\<lparr>entry_id = js ''86-st-q'', entry_lines = [js ''Q'']\<rparr>"]
    by (simp add: Let_def lines zero) (simp add: js_def)
qed

section \<open>Name normalization: the two normalizers\<close>

subsection \<open>Parentheses, white space, trimming\<close>

lemma isWhiteSpace_SPACE [simp]: "isWhiteSpace SPACE"
  by (simp add: isWhiteSpace_def SPACE_def)

lemma not_ws_parens [simp]: "\<not> isWhiteSpace LPAREN" "\<not> isWhiteSpace RPAREN"
  by (simp_all add: isWhiteSpace_def LPAREN_def RPAREN_def)

lemma parens_neq_SPACE [simp]:
  "RPAREN \<noteq> SPACE" "LPAREN \<noteq> SPACE" "SPACE \<noteq> RPAREN" "SPACE \<noteq> LPAREN"
  by (simp_all add: SPACE_def LPAREN_def RPAREN_def)

subsection \<open>strip\<close>

lemma set_stripScan: "set (stripScan b s) \<subseteq> set s"
  by (induction b s rule: stripScan.induct) auto

lemma noMatch_stripScan: "noMatch (stripScan b s)"
proof (induction b s rule: stripScan.induct)
  case (3 c cs)
  then show ?case using set_stripScan [of False cs] by auto
qed auto

lemma stripScan_noMatch: "noMatch s \<Longrightarrow> stripScan False s = s"
  by (induction s) auto

subsection \<open>collapse\<close>

lemma set_collapseScan: "set (collapseScan b s) \<subseteq> insert SPACE (set s)"
  by (induction b s rule: collapseScan.induct) auto

lemma spaced_collapseScan: "spaced b (collapseScan b s)"
  by (induction b s rule: collapseScan.induct) auto

lemma collapseScan_spaced: "spaced b s \<Longrightarrow> collapseScan b s = s"
  by (induction b s rule: collapseScan.induct) (auto split: if_splits)

lemma noMatch_collapseScan: "noMatch s \<Longrightarrow> noMatch (collapseScan b s)"
proof (induction b s rule: collapseScan.induct)
  case (2 prev c cs)
  then show ?case using set_collapseScan [of False cs] set_collapseScan [of True cs]
    by (auto split: if_splits)
qed simp

subsection \<open>trim\<close>

lemma noMatch_append: "noMatch (xs @ ys) \<Longrightarrow> noMatch xs"
  by (induction xs) auto

lemma noMatch_dropWhile: "noMatch s \<Longrightarrow> noMatch (dropWhile P s)"
  by (induction s) auto

lemma spaced_append: "spaced b (xs @ ys) \<Longrightarrow> spaced b xs"
  by (induction xs arbitrary: b) (auto split: if_splits)

lemma spaced_dropWhile: "spaced b s \<Longrightarrow> spaced b' (dropWhile isWhiteSpace s)"
  by (induction s arbitrary: b) (auto split: if_splits)

lemma trim_prefix:
  "\<exists>zs. dropWhile isWhiteSpace s = trim s @ zs \<and> (\<forall>z \<in> set zs. isWhiteSpace z)"
proof -
  let ?d = "dropWhile isWhiteSpace s"
  have "rev ?d = takeWhile isWhiteSpace (rev ?d) @ dropWhile isWhiteSpace (rev ?d)" by simp
  then have "?d = rev (dropWhile isWhiteSpace (rev ?d)) @ rev (takeWhile isWhiteSpace (rev ?d))"
    by (metis rev_append rev_rev_ident)
  moreover have "\<forall>z \<in> set (rev (takeWhile isWhiteSpace (rev ?d))). isWhiteSpace z"
    by (auto dest: set_takeWhileD)
  ultimately show ?thesis unfolding trim_def by blast
qed

lemma noMatch_trim: "noMatch s \<Longrightarrow> noMatch (trim s)"
  using trim_prefix [of s] noMatch_dropWhile [of s isWhiteSpace] noMatch_append by metis

lemma spaced_trim: "spaced b s \<Longrightarrow> spaced False (trim s)"
  using trim_prefix [of s] spaced_dropWhile [of b s False] spaced_append by metis

lemma set_trim: "set (trim s) \<subseteq> set s"
proof -
  have "set (trim s) \<subseteq> set (dropWhile isWhiteSpace s)"
    unfolding trim_def by (metis set_dropWhileD set_rev subsetI)
  then show ?thesis by (meson set_dropWhileD subset_iff)
qed

lemma trim_starts: "dropWhile isWhiteSpace (trim s) = trim s"
proof (cases "trim s")
  case Nil
  then show ?thesis by simp
next
  case (Cons c cs)
  obtain zs where z: "dropWhile isWhiteSpace s = trim s @ zs" using trim_prefix by blast
  with Cons have "dropWhile isWhiteSpace s \<noteq> []" "hd (dropWhile isWhiteSpace s) = c" by simp_all
  then have "\<not> isWhiteSpace c" using hd_dropWhile by metis
  with Cons show ?thesis by simp
qed

lemma trim_idem: "trim (trim s) = trim s"
proof -
  have "rev (trim s) = dropWhile isWhiteSpace (rev (dropWhile isWhiteSpace s))"
    by (simp add: trim_def)
  then have "dropWhile isWhiteSpace (rev (trim s)) = rev (trim s)" by simp
  then show ?thesis
    by (metis trim_def trim_starts rev_rev_ident)
qed

subsection \<open>the pipeline\<close>

lemma pipeline_idem:
  assumes f: "\<And>c. f (f c) = f c" and sp: "f SPACE = SPACE"
  shows "trim (collapseWhitespace (stripParens (map f
           (trim (collapseWhitespace (stripParens (map f s))))))) =
         trim (collapseWhitespace (stripParens (map f s)))"
proof -
  define u where "u = stripScan False (map f s)"
  define v where "v = collapseScan False u"
  define t where "t = trim v"
  have "set t \<subseteq> insert SPACE (set (map f s))"
    using set_trim [of v] set_collapseScan [of False u] set_stripScan [of False "map f s"]
    unfolding t_def v_def u_def by blast
  then have "\<forall>c \<in> set t. f c = c" using f sp by auto
  then have m: "map f t = t" by (simp add: map_idI)
  have "noMatch u" unfolding u_def by (rule noMatch_stripScan)
  then have "noMatch t" unfolding t_def v_def by (intro noMatch_trim noMatch_collapseScan)
  then have s1: "stripScan False t = t" by (rule stripScan_noMatch)
  have "spaced False v" unfolding v_def by (rule spaced_collapseScan)
  then have "spaced False t" unfolding t_def by (rule spaced_trim)
  then have s2: "collapseScan False t = t" by (rule collapseScan_spaced)
  have s3: "trim t = t" unfolding t_def by (rule trim_idem)
  have "trim (collapseWhitespace (stripParens (map f t))) = t"
    by (simp add: m stripParens_def collapseWhitespace_def s1 s2 s3)
  then show ?thesis by (simp add: t_def v_def u_def stripParens_def collapseWhitespace_def)
qed

subsection \<open>The later steps keep a lowercased string lowercased\<close>

lemma surrogate_not_space [simp]:
  "isHighSurrogate u \<Longrightarrow> \<not> isWhiteSpace u" "isLowSurrogate u \<Longrightarrow> \<not> isWhiteSpace u"
  "isHighSurrogate u \<Longrightarrow> u \<noteq> LPAREN" "isHighSurrogate u \<Longrightarrow> u \<noteq> RPAREN"
  "isLowSurrogate u \<Longrightarrow> u \<noteq> LPAREN" "isLowSurrogate u \<Longrightarrow> u \<noteq> RPAREN"
  by (auto simp: isHighSurrogate_def isLowSurrogate_def isWhiteSpace_def LPAREN_def RPAREN_def)

lemma space_lowercased: "isScalarUnit SPACE \<and> fixedPoint SPACE"
  by (simp add: isScalarUnit_def fixedPoint_def SPACE_def simpleLower_low)

lemma apostrophe_lowercased: "isScalarUnit APOSTROPHE \<and> fixedPoint APOSTROPHE"
  by (simp add: isScalarUnit_def fixedPoint_def APOSTROPHE_def simpleLower_low)

lemma lowercased_map:
  assumes f: "\<And>u. f u = u \<or> (\<not> isHighSurrogate u \<and> \<not> isLowSurrogate u \<and>
                               isScalarUnit (f u) \<and> fixedPoint (f u))"
  shows "lowercased t \<Longrightarrow> lowercased (map f t)"
proof (induction t rule: lowercased.induct)
  case 1
  show ?case by simp
next
  case (2 u)
  with f [of u] show ?case by auto
next
  case (3 u v rest)
  show ?case
  proof (cases "isHighSurrogate u")
    case True
    with "3.prems" have p: "isLowSurrogate v" "fixedPoint (pairValue u v)" "lowercased rest"
      by simp_all
    from True f [of u] have fu: "f u = u" by auto
    from p(1) f [of v] have fv: "f v = v" by auto
    from "3.IH"(1) [OF True p(3)] True p show ?thesis by (simp add: fu fv)
  next
    case False
    with "3.prems" have p: "isScalarUnit u" "fixedPoint u" "lowercased (v # rest)" by simp_all
    from f [of u] p have q: "isScalarUnit (f u)" "fixedPoint (f u)" by auto
    from "3.IH"(2) [OF False p(3)] have "lowercased (map f (v # rest))" .
    with q show ?thesis using lowercased_plain [of "f u" "map f (v # rest)"] scalar_unit_plain [of "f u"]
      by simp
  qed
qed

lemma lowercased_stripScan: "lowercased t \<Longrightarrow> lowercased (stripScan b t)"
proof (induction t arbitrary: b rule: lowercased.induct)
  case 1
  show ?case by simp
next
  case (2 u)
  then show ?case by (cases b) auto
next
  case (3 u v rest)
  show ?case
  proof (cases "isHighSurrogate u")
    case True
    with "3.prems" have p: "isLowSurrogate v" "fixedPoint (pairValue u v)" "lowercased rest"
      by simp_all
    from "3.IH"(1) [OF True p(3)] True p show ?thesis by (cases b) simp_all
  next
    case False
    with "3.prems" have p: "isScalarUnit u" "fixedPoint u" "lowercased (v # rest)" by simp_all
    from "3.IH"(2) [OF False p(3)] have ih: "\<And>b. lowercased (stripScan b (v # rest))" .
    show ?thesis
    proof (cases b)
      case True
      have eq: "stripScan True (u # v # rest) =
              (if u = RPAREN then stripScan False (v # rest) else stripScan True (v # rest))"
        by (simp only: stripScan.simps)
      have "lowercased (stripScan True (u # v # rest))" unfolding eq using ih
        by (cases "u = RPAREN") (simp_all only: simp_thms if_True if_False)
      moreover from True have "b = True" by simp
      ultimately show ?thesis by (simp only:)
    next
      case b: False
      show ?thesis
      proof (cases "u = LPAREN \<and> RPAREN \<in> set (v # rest)")
        case True
        then have "stripScan False (u # v # rest) = stripScan True (v # rest)"
          by (simp only: stripScan.simps simp_thms if_True)
        with ih [of True] have "lowercased (stripScan False (u # v # rest))" by (simp only:)
        moreover from b have "b = False" by simp
        ultimately show ?thesis by (simp only:)
      next
        case nomatch: False
        then have "stripScan False (u # v # rest) = u # stripScan False (v # rest)"
          by (simp only: stripScan.simps simp_thms if_False)
        moreover have "lowercased (u # stripScan False (v # rest))"
          using ih [of False] p False lowercased_plain [of u "stripScan False (v # rest)"]
          by (simp only: simp_thms)
        ultimately have "lowercased (stripScan False (u # v # rest))" by (simp only:)
        moreover from b have "b = False" by simp
        ultimately show ?thesis by (simp only:)
      qed
    qed
  qed
qed

lemma lowercased_collapseScan: "lowercased t \<Longrightarrow> lowercased (collapseScan b t)"
proof (induction t arbitrary: b rule: lowercased.induct)
  case 1
  show ?case by simp
next
  case (2 u)
  then show ?case using space_lowercased by auto
next
  case (3 u v rest)
  show ?case
  proof (cases "isHighSurrogate u")
    case True
    with "3.prems" have p: "isLowSurrogate v" "fixedPoint (pairValue u v)" "lowercased rest"
      by simp_all
    from "3.IH"(1) [OF True p(3)] True p show ?thesis by simp
  next
    case False
    with "3.prems" have p: "isScalarUnit u" "fixedPoint u" "lowercased (v # rest)" by simp_all
    from "3.IH"(2) [OF False p(3)] have ih: "\<And>b. lowercased (collapseScan b (v # rest))" .
    have sp: "\<not> isHighSurrogate SPACE" using space_lowercased scalar_unit_plain by blast
    show ?thesis
    proof (cases "isWhiteSpace u")
      case True
      have "collapseScan b (u # v # rest) =
              (if b then collapseScan True (v # rest) else SPACE # collapseScan True (v # rest))"
        using True by (simp only: collapseScan.simps simp_thms if_True)
      moreover have "lowercased (SPACE # collapseScan True (v # rest))"
        using ih [of True] space_lowercased sp
          lowercased_plain [of SPACE "collapseScan True (v # rest)"] by (simp only: simp_thms)
      ultimately show ?thesis using ih [of True] by (cases b) (simp_all only: simp_thms if_True if_False)
    next
      case ws: False
      have "collapseScan b (u # v # rest) = u # collapseScan False (v # rest)"
        using ws by (simp only: collapseScan.simps simp_thms if_False)
      moreover have "lowercased (u # collapseScan False (v # rest))"
        using ih [of False] p False lowercased_plain [of u "collapseScan False (v # rest)"]
        by (simp only: simp_thms)
      ultimately show ?thesis by (simp only:)
    qed
  qed
qed

lemma lowercased_dropWhile: "lowercased t \<Longrightarrow> lowercased (dropWhile isWhiteSpace t)"
proof (induction t rule: lowercased.induct)
  case 1
  show ?case by simp
next
  case (2 u)
  then show ?case by simp
next
  case (3 u v rest)
  show ?case
  proof (cases "isWhiteSpace u")
    case True
    then have "\<not> isHighSurrogate u" by auto
    with "3.prems" "3.IH"(2) True show ?thesis by simp
  next
    case False
    with "3.prems" show ?thesis by simp
  qed
qed

lemma lowercased_prefix:
  "lowercased (xs @ zs) \<Longrightarrow> \<forall>z \<in> set zs. isWhiteSpace z \<Longrightarrow> lowercased xs"
proof (induction xs rule: lowercased.induct)
  case 1
  show ?case by simp
next
  case (2 u)
  show ?case
  proof (cases zs)
    case Nil
    with "2.prems" show ?thesis by simp
  next
    case (Cons z zs')
    with "2.prems"(2) have "isWhiteSpace z" by simp
    then have "\<not> isLowSurrogate z" by auto
    with "2.prems"(1) Cons show ?thesis by (auto split: if_splits)
  qed
next
  case (3 u v rest)
  show ?case
  proof (cases "isHighSurrogate u")
    case True
    with "3.prems"(1) have p: "isLowSurrogate v" "fixedPoint (pairValue u v)" "lowercased (rest @ zs)"
      by simp_all
    from "3.IH"(1) [OF True p(3) "3.prems"(2)] True p show ?thesis by simp
  next
    case False
    with "3.prems"(1) have p: "isScalarUnit u" "fixedPoint u" "lowercased ((v # rest) @ zs)"
      by simp_all
    from "3.IH"(2) [OF False p(3) "3.prems"(2)] False p show ?thesis by simp
  qed
qed

lemma lowercased_trim: "lowercased t \<Longrightarrow> lowercased (trim t)"
proof -
  assume t: "lowercased t"
  obtain zs where zs: "dropWhile isWhiteSpace t = trim t @ zs" "\<forall>z \<in> set zs. isWhiteSpace z"
    using trim_prefix by blast
  from lowercased_dropWhile [OF t] have "lowercased (trim t @ zs)" by (simp add: zs(1))
  then show ?thesis using zs(2) by (rule lowercased_prefix)
qed

subsection \<open>The two normalizers\<close>

lemma normalizeStationName_unit:
  "normalizeStationName s =
     trim (collapseWhitespace (stripParens (map liveUnit (toLowerCase s))))"
proof -
  have "map liveUnit t = replaceClass (\<lambda>c. c = SLASH \<or> c = BACKSLASH) SPACE
         (replaceClass (\<lambda>c. c = EN_DASH \<or> c = EM_DASH \<or> c = HYPHEN) SPACE t)" for t
    by (simp add: replaceClass_def liveUnit_def Let_def)
  then show ?thesis by (simp add: normalizeStationName_def)
qed

lemma normalizeName_unit:
  "normalizeName s = trim (collapseWhitespace (stripParens (map batchUnit (toLowerCase s))))"
proof -
  have "map batchUnit t = replaceClass (\<lambda>c. c = SLASH) SPACE
         (replaceClass (\<lambda>c. c = LEFT_SINGLE_QUOTE \<or> c = RIGHT_SINGLE_QUOTE) APOSTROPHE
           (replaceClass (\<lambda>c. c = EN_DASH \<or> c = EM_DASH \<or> c = HYPHEN) SPACE t))" for t
    by (simp add: replaceClass_def batchUnit_def Let_def)
  then show ?thesis by (simp add: normalizeName_def)
qed

lemmas unit_defs = SPACE_def APOSTROPHE_def HYPHEN_def SLASH_def BACKSLASH_def
  EN_DASH_def EM_DASH_def LEFT_SINGLE_QUOTE_def RIGHT_SINGLE_QUOTE_def

lemma liveUnit_idem: "liveUnit (liveUnit c) = liveUnit c"
  by (simp add: liveUnit_def Let_def unit_defs)

lemma batchUnit_idem: "batchUnit (batchUnit c) = batchUnit c"
  by (simp add: batchUnit_def Let_def unit_defs)

lemma liveUnit_SPACE: "liveUnit SPACE = SPACE"
  by (simp add: liveUnit_def Let_def unit_defs)

lemma batchUnit_SPACE: "batchUnit SPACE = SPACE"
  by (simp add: batchUnit_def Let_def unit_defs)

lemma units_agree:
  "c \<noteq> LEFT_SINGLE_QUOTE \<Longrightarrow> c \<noteq> RIGHT_SINGLE_QUOTE \<Longrightarrow> c \<noteq> BACKSLASH \<Longrightarrow>
   batchUnit c = liveUnit c"
  by (simp add: liveUnit_def batchUnit_def Let_def unit_defs)

lemma liveUnit_mild:
  "liveUnit u = u \<or> (\<not> isHighSurrogate u \<and> \<not> isLowSurrogate u \<and>
                      isScalarUnit (liveUnit u) \<and> fixedPoint (liveUnit u))"
proof (cases "liveUnit u = u")
  case True
  then show ?thesis by simp
next
  case False
  then have "liveUnit u = SPACE" "u < 0xD800"
    by (auto simp: liveUnit_def Let_def unit_defs split: if_splits)
  with space_lowercased show ?thesis by (simp add: isHighSurrogate_def isLowSurrogate_def)
qed

lemma batchUnit_mild:
  "batchUnit u = u \<or> (\<not> isHighSurrogate u \<and> \<not> isLowSurrogate u \<and>
                       isScalarUnit (batchUnit u) \<and> fixedPoint (batchUnit u))"
proof (cases "batchUnit u = u")
  case True
  then show ?thesis by simp
next
  case False
  then have "batchUnit u = SPACE \<or> batchUnit u = APOSTROPHE" "u < 0xD800"
    by (auto simp: batchUnit_def Let_def unit_defs split: if_splits)
  with space_lowercased apostrophe_lowercased show ?thesis
    by (auto simp: isHighSurrogate_def isLowSurrogate_def)
qed

lemma normalized_lowercased:
  assumes f: "\<And>u. f u = u \<or> (\<not> isHighSurrogate u \<and> \<not> isLowSurrogate u \<and>
                               isScalarUnit (f u) \<and> fixedPoint (f u))"
    and s: "wellFormed s"
  shows "lowercased (trim (collapseWhitespace (stripParens (map f (toLowerCase s)))))"
  unfolding collapseWhitespace_def stripParens_def
  by (intro lowercased_trim lowercased_collapseScan lowercased_stripScan lowercased_map [of f]
        toLowerCase_wellFormed f s)

lemma twice:
  assumes ff: "\<And>c. f (f c) = f c" and sp: "f SPACE = SPACE"
    and f: "\<And>u. f u = u \<or> (\<not> isHighSurrogate u \<and> \<not> isLowSurrogate u \<and>
                               isScalarUnit (f u) \<and> fixedPoint (f u))"
    and s: "wellFormed s"
  shows "trim (collapseWhitespace (stripParens (map f (toLowerCase
           (trim (collapseWhitespace (stripParens (map f (toLowerCase s))))))))) =
         trim (collapseWhitespace (stripParens (map f (toLowerCase s))))"
proof -
  have "toLowerCase (trim (collapseWhitespace (stripParens (map f (toLowerCase s))))) =
        trim (collapseWhitespace (stripParens (map f (toLowerCase s))))"
    by (rule toLowerCase_lowercased, rule normalized_lowercased [of f, OF f s])
  then show ?thesis using pipeline_idem [of f "toLowerCase s", OF ff sp] by simp
qed

lemmas eval_defs = normalizeName_def normalizeStationName_def replaceClass_def lower_eval
  stripParens_def collapseWhitespace_def trim_def isWhiteSpace_def unit_defs js_def
  LPAREN_def RPAREN_def

text \<open>
  C5, as stated, fails. In \<open>U+D801 ( ) U+DC00\<close> the two surrogates are apart, and the first
  pass leaves each as it is; it strips the parentheses, which makes them the pair of
  \<open>U+10400\<close>, and the second pass turns that capital into \<open>U+10428\<close>.
\<close>

theorem normalization_not_idempotent:
  "normalizeStationName [0xD801, LPAREN, RPAREN, 0xDC00] = [0xD801, 0xDC00] \<and>
   normalizeStationName [0xD801, 0xDC00] = [0xD801, 0xDC28] \<and>
   normalizeStationName (normalizeStationName [0xD801, LPAREN, RPAREN, 0xDC00]) \<noteq>
     normalizeStationName [0xD801, LPAREN, RPAREN, 0xDC00] \<and>
   normalizeName (normalizeName [0xD801, LPAREN, RPAREN, 0xDC00]) \<noteq>
     normalizeName [0xD801, LPAREN, RPAREN, 0xDC00]"
  by (simp add: eval_defs)

text \<open>
  C5, amended. On every well-formed string, one in which every surrogate is half of a
  pair, both normalizers are idempotent.
\<close>

theorem normalization_idempotent_on_well_formed:
  assumes "wellFormed s"
  shows "normalizeStationName (normalizeStationName s) = normalizeStationName s \<and>
         normalizeName (normalizeName s) = normalizeName s"
  unfolding normalizeStationName_unit normalizeName_unit
  using twice [of liveUnit s, OF liveUnit_idem liveUnit_SPACE liveUnit_mild assms]
        twice [of batchUnit s, OF batchUnit_idem batchUnit_SPACE batchUnit_mild assms]
  by simp

theorem normalization_idempotent_on_well_formed_witness:
  "wellFormed ([0xD801, 0xDC00] @ js ''ber (Deseret) St'') \<and>
   normalizeStationName ([0xD801, 0xDC00] @ js ''ber (Deseret) St'') =
     [0xD801, 0xDC28] @ js ''ber st'' \<and>
   normalizeStationName (normalizeStationName ([0xD801, 0xDC00] @ js ''ber (Deseret) St'')) =
     normalizeStationName ([0xD801, 0xDC00] @ js ''ber (Deseret) St'') \<and>
   normalizeName (normalizeName ([0xD801, 0xDC00] @ js ''ber (Deseret) St'')) =
     normalizeName ([0xD801, 0xDC00] @ js ''ber (Deseret) St'')"
  using normalization_idempotent_on_well_formed [of "[0xD801, 0xDC00] @ js ''ber (Deseret) St''"]
  by (simp add: eval_defs isScalarUnit_def)

text \<open>
  C4, as stated, fails: the batch normalizer turns the curly apostrophe of
  \<open>St Mary\<close>\<open>'\<close>\<open>s St\<close> into a straight one, the live normalizer keeps it.
\<close>

theorem normalizers_differ:
  "normalizeName (js ''St Mary'' @ [RIGHT_SINGLE_QUOTE] @ js ''s St'') = js ''st mary's st'' \<and>
   normalizeStationName (js ''St Mary'' @ [RIGHT_SINGLE_QUOTE] @ js ''s St'') =
     js ''st mary'' @ [RIGHT_SINGLE_QUOTE] @ js ''s st'' \<and>
   normalizeName (js ''St Mary'' @ [RIGHT_SINGLE_QUOTE] @ js ''s St'') \<noteq>
     normalizeStationName (js ''St Mary'' @ [RIGHT_SINGLE_QUOTE] @ js ''s St'')"
  by (simp add: eval_defs)

text \<open>
  The other difference: the live normalizer turns a backslash into a space, the batch
  normalizer keeps it.
\<close>

lemma normalizers_differ_backslash:
  "normalizeName (js ''a'' @ [BACKSLASH] @ js ''b'') = js ''a'' @ [BACKSLASH] @ js ''b'' \<and>
   normalizeStationName (js ''a'' @ [BACKSLASH] @ js ''b'') = js ''a b''"
  by (simp add: eval_defs)

text \<open>
  C4, amended. On every string without a curly single quote (\<open>U+2018\<close>, \<open>U+2019\<close>) and
  without a backslash, the two normalizers return the same string.
\<close>

theorem normalizers_agree:
  assumes "LEFT_SINGLE_QUOTE \<notin> set s" and "RIGHT_SINGLE_QUOTE \<notin> set s" and "BACKSLASH \<notin> set s"
  shows "normalizeName s = normalizeStationName s"
proof -
  have "LEFT_SINGLE_QUOTE \<notin> set (toLowerCase s)" "RIGHT_SINGLE_QUOTE \<notin> set (toLowerCase s)"
    "BACKSLASH \<notin> set (toLowerCase s)"
    using assms by (simp_all add: toLowerCase_avoids unit_defs)
  then have "map batchUnit (toLowerCase s) = map liveUnit (toLowerCase s)"
    by (intro map_cong refl units_agree) auto
  then show ?thesis by (simp only: normalizeStationName_unit normalizeName_unit)
qed

theorem normalizers_agree_witness:
  "LEFT_SINGLE_QUOTE \<notin> set (js ''Lexington Av/59 St (4,5) '') \<and>
   RIGHT_SINGLE_QUOTE \<notin> set (js ''Lexington Av/59 St (4,5) '') \<and>
   BACKSLASH \<notin> set (js ''Lexington Av/59 St (4,5) '') \<and>
   normalizeName (js ''Lexington Av/59 St (4,5) '') =
     normalizeStationName (js ''Lexington Av/59 St (4,5) '') \<and>
   normalizeStationName (js ''Lexington Av/59 St (4,5) '') = js ''lexington av 59 st''"
  using normalizers_agree [of "js ''Lexington Av/59 St (4,5) ''"]
  by (simp add: eval_defs)

end
